theory Spec2Isabelle
  imports Main "HOL-Library.Sublist"
begin

section \<open>JavaScript strings and truthiness\<close>

text \<open>
  Strings of the program are modelled as \<open>string\<close> (lists of 8-bit characters, read as
  the UTF-8 bytes of the JavaScript string).  Every pattern the program searches for is
  ASCII, apart from the one literal with a macron in \<open>cleanSlug\<close>, which is written as its
  two bytes.  A value that may be \<open>null\<close> or \<open>undefined\<close> is a \<open>string option\<close>; JavaScript
  treats \<open>null\<close>, \<open>undefined\<close> and the empty string as false in a condition.
\<close>

fun truthy :: "string option \<Rightarrow> bool" where
  "truthy None = False"
| "truthy (Some s) = (s \<noteq> [])"

text \<open>\<open>s.startsWith(p)\<close>.\<close>

fun startsWith :: "string \<Rightarrow> string \<Rightarrow> bool" where
  "startsWith s [] = True"
| "startsWith [] (p # ps) = False"
| "startsWith (c # cs) (p # ps) = (c = p \<and> startsWith cs ps)"

text \<open>\<open>s.includes(p)\<close>: \<open>p\<close> occurs in \<open>s\<close> as a contiguous substring.\<close>

fun includes_str :: "string \<Rightarrow> string \<Rightarrow> bool" where
  "includes_str [] p = (p = [])"
| "includes_str (c # cs) p = (startsWith (c # cs) p \<or> includes_str cs p)"

text \<open>\<open>s.endsWith(p)\<close>.\<close>

definition endsWith :: "string \<Rightarrow> string \<Rightarrow> bool" where
  "endsWith s p = startsWith (rev s) (rev p)"

section \<open>Proxy rotation manager (class \<open>ProxyManager\<close>)\<close>

text \<open>
  The fields of the class that rotation reads and writes.  \<open>failedProxies\<close> is a
  JavaScript \<open>Set\<close>.
\<close>

record proxy_manager =
  proxies :: "string list"
  currentIndex :: nat
  failedProxies :: "string set"
  useProxy :: bool

text \<open>\<open>xs[i]\<close> in JavaScript: \<open>undefined\<close> out of range.\<close>

definition at_index :: "string list \<Rightarrow> nat \<Rightarrow> string option" where
  "at_index xs i = (if i < length xs then Some (xs ! i) else None)"

text \<open>\<open>failedProxies.has(proxy)\<close>; the set never holds \<open>undefined\<close>.\<close>

fun has_failed :: "string set \<Rightarrow> string option \<Rightarrow> bool" where
  "has_failed fs None = False"
| "has_failed fs (Some p) = (p \<in> fs)"

text \<open>
  The \<open>while (attempts < this.proxies.length)\<close> loop of \<open>getNextProxy\<close>, with the code
  after it: when the loop ends without returning, all tombstones are cleared and
  \<open>this.proxies[0]\<close> is returned.
\<close>

function getNextProxy_loop :: "proxy_manager \<Rightarrow> nat \<Rightarrow> string option \<times> proxy_manager" where
  "getNextProxy_loop pm attempts =
     (if attempts < length (proxies pm) then
        (let proxy = at_index (proxies pm) (currentIndex pm);
             pm' = pm\<lparr>currentIndex := (currentIndex pm + 1) mod length (proxies pm)\<rparr>
         in if \<not> has_failed (failedProxies pm') proxy then (proxy, pm')
            else getNextProxy_loop pm' (attempts + 1))
      else (at_index (proxies pm) 0, pm\<lparr>failedProxies := {}\<rparr>))"
  by pat_completeness auto
termination
  by (relation "measure (\<lambda>(pm, attempts). length (proxies pm) - attempts)") auto

declare getNextProxy_loop.simps [simp del]

definition getNextProxy :: "proxy_manager \<Rightarrow> string option \<times> proxy_manager" where
  "getNextProxy pm =
     (if \<not> useProxy pm \<or> length (proxies pm) = 0 then (None, pm)
      else getNextProxy_loop pm 0)"

text \<open>\<open>markProxyAsFailed(proxy)\<close>: a falsy argument is ignored.\<close>

definition markProxyAsFailed :: "proxy_manager \<Rightarrow> string option \<Rightarrow> proxy_manager" where
  "markProxyAsFailed pm proxy =
     (case proxy of
        None \<Rightarrow> pm
      | Some p \<Rightarrow> if p = [] then pm else pm\<lparr>failedProxies := insert p (failedProxies pm)\<rparr>)"

section \<open>HTTP fetch layer (\<open>fetchHtmlWithRetry\<close>)\<close>

text \<open>Decimal rendering of a number inside a template string.\<close>

function show_nat :: "nat \<Rightarrow> string" where
  "show_nat n = (if n < 10 then [''0123456789'' ! n]
                 else show_nat (n div 10) @ [''0123456789'' ! (n mod 10)])"
  by pat_completeness auto
termination
  by (relation "measure id") auto

declare show_nat.simps [simp del]

text \<open>
  What the network answers to one request: an HTTP response with its status and body, or
  no response at all (connection refused, timeout, ...), which the HTTP client reports
  as an error with a code and a message.
\<close>

datatype outcome = Response nat string | NetworkError string string

record fetch_error =
  err_code :: string
  err_message :: string
  err_status :: "nat option"

text \<open>The \<open>validateStatus\<close> option passed to the HTTP client.\<close>

definition validateStatus :: "nat \<Rightarrow> bool" where
  "validateStatus status = (status \<ge> 200 \<and> status < 400)"

text \<open>
  \<open>axios.get(url, config)\<close> followed by \<open>String(res.data || "")\<close>: the client resolves
  with the response when \<open>validateStatus\<close> accepts its status and otherwise rejects with
  an error that names the status; a request without response rejects with the
  transport error.
\<close>

definition axios_get :: "outcome \<Rightarrow> fetch_error + string" where
  "axios_get out =
     (case out of
        Response status body \<Rightarrow>
          if validateStatus status then Inr body
          else Inl \<lparr>err_code = (if status \<ge> 500 then ''ERR_BAD_RESPONSE'' else ''ERR_BAD_REQUEST''),
                    err_message = ''Request failed with status code '' @ show_nat status,
                    err_status = Some status\<rparr>
      | NetworkError c m \<Rightarrow> Inl \<lparr>err_code = c, err_message = m, err_status = None\<rparr>)"

text \<open>The message of the \<open>Error\<close> thrown after the loop.\<close>

definition failure_message :: "string \<Rightarrow> fetch_error option \<Rightarrow> string" where
  "failure_message url lastErr =
     ''Failed to fetch '' @ url @ '': '' @
       (case lastErr of
          None \<Rightarrow> ''unknown error''
        | Some e \<Rightarrow> if err_message e = [] then ''unknown error'' else err_message e)"

text \<open>
  The \<open>for (attempt = 1; attempt <= retries; attempt++)\<close> loop.  \<open>net attempt\<close> is the
  answer of the network to the request of that attempt.  The result is \<open>Inr body\<close> for
  a returned body and \<open>Inl message\<close> for the thrown \<open>Error\<close>; the proxy manager is
  threaded through.  The delay between attempts has no effect on the result.
\<close>

function fetch_loop ::
  "(nat \<Rightarrow> outcome) \<Rightarrow> string \<Rightarrow> nat \<Rightarrow> nat \<Rightarrow> fetch_error option \<Rightarrow> proxy_manager
     \<Rightarrow> (string + string) \<times> proxy_manager" where
  "fetch_loop net url retries attempt lastErr pm =
     (if attempt \<le> retries then
        (case getNextProxy pm of
           (currentProxy, pm1) \<Rightarrow>
             (case axios_get (net attempt) of
                Inr body \<Rightarrow> (Inr body, pm1)
              | Inl err \<Rightarrow>
                  fetch_loop net url retries (attempt + 1) (Some err)
                    (if truthy currentProxy \<and>
                        (err_code err = ''ECONNREFUSED'' \<or> err_code err = ''ETIMEDOUT'')
                     then markProxyAsFailed pm1 currentProxy else pm1)))
      else (Inl (failure_message url lastErr), pm))"
  by pat_completeness auto
termination
  by (relation "measure (\<lambda>(net, url, retries, attempt, lastErr, pm). retries + 1 - attempt)") auto

declare fetch_loop.simps [simp del]

definition fetchHtmlWithRetry ::
  "(nat \<Rightarrow> outcome) \<Rightarrow> string \<Rightarrow> nat \<Rightarrow> proxy_manager \<Rightarrow> (string + string) \<times> proxy_manager" where
  "fetchHtmlWithRetry net url retries pm = fetch_loop net url retries 1 None pm"

section \<open>Configuration and platform\<close>

text \<open>
  The values of \<open>CONFIG\<close> that the modelled functions read.  \<open>embedMaxDepth\<close> is
  \<open>Number(process.env.EMBED_MAX_DEPTH || 3)\<close>, taken to be a natural number.
\<close>

record config =
  homeUrl :: string
  maxRetries :: nat
  embedMaxDepth :: nat

text \<open>
  A fetched document as the resolver sees it through the HTML parser: for every
  \<open>video\<close> or \<open>source\<close> element, every \<open>iframe\<close> element and every match of the
  script patterns, in document order, the value of \<open>normalizeUrl(raw, url)\<close>
  (\<open>None\<close> where it returns \<open>null\<close>).
\<close>

record document =
  videoSrcs :: "string option list"
  iframeSrcs :: "string option list"
  scriptCandidates :: "string option list"

text \<open>
  The outside world: the answer of the network to the n-th request for a URL, the HTML
  parser applied to a body fetched from a URL, and the platform's URL parser
  (\<open>new URL(u).hostname\<close>, \<open>.origin\<close> and the non-empty segments of \<open>.pathname\<close>;
  \<open>None\<close> where the constructor throws).
\<close>

record world =
  network :: "string \<Rightarrow> nat \<Rightarrow> outcome"
  parse :: "string \<Rightarrow> string \<Rightarrow> document"
  urlHostname :: "string \<Rightarrow> string option"
  urlOrigin :: "string \<Rightarrow> string option"
  urlPathSegments :: "string \<Rightarrow> string list option"

text \<open>\<open>hostname.replace(/^www\./, "")\<close>.\<close>

definition stripWww :: "string \<Rightarrow> string" where
  "stripWww h = (if startsWith h ''www.'' then drop 4 h else h)"

definition TOONSTREAM_HOST :: "config \<Rightarrow> world \<Rightarrow> string option" where
  "TOONSTREAM_HOST cfg w = map_option stripWww (urlHostname w (homeUrl cfg))"

definition TOONSTREAM_ORIGIN :: "config \<Rightarrow> world \<Rightarrow> string" where
  "TOONSTREAM_ORIGIN cfg w = (case urlOrigin w (homeUrl cfg) of Some ori \<Rightarrow> ori | None \<Rightarrow> homeUrl cfg)"

definition isToonstreamUrl :: "config \<Rightarrow> world \<Rightarrow> string \<Rightarrow> bool" where
  "isToonstreamUrl cfg w url =
     (if url = [] \<or> \<not> truthy (TOONSTREAM_HOST cfg w) then False
      else (case urlHostname w url of
              None \<Rightarrow> False
            | Some h \<Rightarrow> Some (stripWww h) = TOONSTREAM_HOST cfg w))"

text \<open>
  \<open>toLowerCase()\<close> on ASCII letters.  The strings it is applied to are serialised URLs
  and segments of URL paths, which are ASCII.
\<close>

definition lower_char :: "char \<Rightarrow> char" where
  "lower_char c =
     (case map_of (zip ''ABCDEFGHIJKLMNOPQRSTUVWXYZ'' ''abcdefghijklmnopqrstuvwxyz'') c of
        Some d \<Rightarrow> d
      | None \<Rightarrow> c)"

definition toLowerCase :: "string \<Rightarrow> string" where
  "toLowerCase s = map lower_char s"

section \<open>Video source resolution engine (\<open>extractRealVideoUrl\<close>)\<close>

definition MAX_DEPTH :: "config \<Rightarrow> nat" where
  "MAX_DEPTH cfg = embedMaxDepth cfg + 2"

definition needsFollow :: "config \<Rightarrow> world \<Rightarrow> string \<Rightarrow> bool" where
  "needsFollow cfg w url =
     (if url = [] then False
      else if includes_str url ''trembed'' then True
      else if includes_str url ''trid='' then True
      else if includes_str url ''trtype='' then True
      else if isToonstreamUrl cfg w url then True
      else if includes_str url ''/embed/'' \<or> includes_str url ''/player/'' \<or> includes_str url ''/e/''
        then True
      else False)"

definition videoExtensions :: "string list" where
  "videoExtensions = [''.mp4'', ''.m3u8'', ''.webm'', ''.mkv'', ''.avi'', ''.mov'', ''.flv'']"

definition isVideoUrl :: "string \<Rightarrow> bool" where
  "isVideoUrl url =
     (if url = [] then False
      else if list_ex (includes_str (toLowerCase url)) videoExtensions then True
      else if includes_str url ''/video/'' \<or> includes_str url ''/stream/'' \<or> includes_str url ''/hls/''
        then True
      else if includes_str url ''googlevideo.com'' \<or> includes_str url ''googleusercontent.com''
        then True
      else if includes_str url ''streamtape'' \<or> includes_str url ''filemoon'' \<or> includes_str url ''voe.sx''
        then True
      else if includes_str url ''dood'' \<or> includes_str url ''mixdrop'' \<or> includes_str url ''streamlare''
        then True
      else False)"

text \<open>\<open>pickDirectVideo\<close>: the first media element with a usable, non-blob source.\<close>

fun pickDirectVideo :: "string option list \<Rightarrow> string option" where
  "pickDirectVideo [] = None"
| "pickDirectVideo (None # rest) = pickDirectVideo rest"
| "pickDirectVideo (Some normalized # rest) =
     (if normalized \<noteq> [] \<and> \<not> startsWith normalized ''blob:'' then Some normalized
      else pickDirectVideo rest)"

text \<open>
  The filter shared by \<open>pickIframe\<close> and \<open>pickFromScripts\<close>:
  \<open>normalized && normalized !== url && !visited.has(normalized)\<close>.
\<close>

fun collect :: "string set \<Rightarrow> string \<Rightarrow> string option list \<Rightarrow> string list" where
  "collect visited url [] = []"
| "collect visited url (None # rest) = collect visited url rest"
| "collect visited url (Some normalized # rest) =
     (if normalized \<noteq> [] \<and> normalized \<noteq> url \<and> normalized \<notin> visited
      then normalized # collect visited url rest
      else collect visited url rest)"

text \<open>\<open>xs[0] || null\<close>.\<close>

fun first_or_null :: "string list \<Rightarrow> string option" where
  "first_or_null [] = None"
| "first_or_null (x # xs) = (if x = [] then None else Some x)"

definition pickIframe :: "string set \<Rightarrow> string \<Rightarrow> string option list \<Rightarrow> string option" where
  "pickIframe visited url srcs = first_or_null (collect visited url srcs)"

definition pickFromScripts ::
  "config \<Rightarrow> world \<Rightarrow> string set \<Rightarrow> string \<Rightarrow> string option list \<Rightarrow> string option" where
  "pickFromScripts cfg w visited url cands =
     (let allCandidates = collect visited url cands in
      case List.find isVideoUrl allCandidates of
        Some videoUrl \<Rightarrow> Some videoUrl
      | None \<Rightarrow>
          (case List.find (\<lambda>u. needsFollow cfg w u \<or> includes_str u ''/embed/'' \<or> includes_str u ''/player/'')
                  allCandidates of
             Some embedUrl \<Rightarrow> Some embedUrl
           | None \<Rightarrow> first_or_null allCandidates))"

definition iframeNotToonstream :: "string \<Rightarrow> bool" where
  "iframeNotToonstream iframeUrl =
     (\<not> includes_str iframeUrl ''toonstream.one'' \<and>
      \<not> includes_str iframeUrl ''trembed'' \<and>
      \<not> includes_str iframeUrl ''trid='' \<and>
      \<not> includes_str iframeUrl ''trtype='')"

definition playerSignatures :: "string list" where
  "playerSignatures =
     [''play.'', ''player.'', ''/video/'', ''/embed/'', ''/e/'', ''/t/'', ''zephyrflick'',
      ''filemoon'', ''streamtape'', ''dood'', ''voe.sx'', ''mixdrop'', ''emturbovid'',
      ''turbovid'', ''vidmoly'', ''streamwish'', ''vidhide'', ''vidguard'', ''vidsrc'',
      ''embedsito'', ''upstream'', ''mp4upload'', ''okru'', ''sbplay'', ''streamsb'',
      ''vidcloud'', ''goload'', ''gogo'']"

definition isVideoPlayer :: "string \<Rightarrow> bool" where
  "isVideoPlayer iframeUrl = list_ex (includes_str iframeUrl) playerSignatures"

text \<open>
  What one call of \<open>resolve\<close> does with the parsed document: return a value, or make
  the one recursive call \<open>resolve(next, depth + 1)\<close> and return its value.
\<close>

datatype step = Return "string option" | Follow string

text \<open>The block \<open>if (iframeUrl && depth < MAX_DEPTH) { ... }\<close>; \<open>None\<close> when it falls through.\<close>

definition iframe_branch :: "config \<Rightarrow> world \<Rightarrow> nat \<Rightarrow> string option \<Rightarrow> step option" where
  "iframe_branch cfg w depth iframeUrl =
     (case iframeUrl of
        None \<Rightarrow> None
      | Some i \<Rightarrow>
          if i \<noteq> [] \<and> depth < MAX_DEPTH cfg then
            (if iframeNotToonstream i \<and> (isVideoPlayer i \<or> isVideoUrl i) then Some (Return (Some i))
             else if iframeNotToonstream i \<and> startsWith i ''http'' then Some (Return (Some i))
             else if needsFollow cfg w i then Some (Follow i)
             else None)
          else None)"

text \<open>The block \<open>if (scriptUrl) { ... }\<close>; \<open>None\<close> when it falls through.\<close>

definition script_branch :: "config \<Rightarrow> world \<Rightarrow> nat \<Rightarrow> string option \<Rightarrow> step option" where
  "script_branch cfg w depth scriptUrl =
     (case scriptUrl of
        None \<Rightarrow> None
      | Some s \<Rightarrow>
          if s = [] then None
          else if isVideoUrl s then Some (Return (Some s))
          else if needsFollow cfg w s \<and> depth < MAX_DEPTH cfg then Some (Follow s)
          else None)"

text \<open>
  The last two statements: follow the iframe anyway, else
  \<open>return directVideo || url\<close>.
\<close>

definition fallback :: "config \<Rightarrow> nat \<Rightarrow> string \<Rightarrow> string option \<Rightarrow> string option \<Rightarrow> step" where
  "fallback cfg depth url directVideo iframeUrl =
     (case iframeUrl of
        Some i \<Rightarrow>
          if i \<noteq> [] \<and> depth < MAX_DEPTH cfg then Follow i
          else Return (if truthy directVideo then directVideo else Some url)
      | None \<Rightarrow> Return (if truthy directVideo then directVideo else Some url))"

text \<open>
  The body of \<open>resolve\<close> after \<open>cheerio.load(html)\<close>.  \<open>visited\<close> already contains
  \<open>url\<close>.
\<close>

definition decide :: "config \<Rightarrow> world \<Rightarrow> string set \<Rightarrow> string \<Rightarrow> nat \<Rightarrow> document \<Rightarrow> step" where
  "decide cfg w visited url depth doc =
     (let directVideo = pickDirectVideo (videoSrcs doc) in
      if truthy directVideo \<and> (case directVideo of Some v \<Rightarrow> isVideoUrl v | None \<Rightarrow> False)
      then Return directVideo
      else
        (let iframeUrl = pickIframe visited url (iframeSrcs doc) in
         case iframe_branch cfg w depth iframeUrl of
           Some st \<Rightarrow> st
         | None \<Rightarrow>
             (case script_branch cfg w depth
                     (pickFromScripts cfg w visited url (scriptCandidates doc)) of
                Some st \<Rightarrow> st
              | None \<Rightarrow> fallback cfg depth url directVideo iframeUrl)))"

lemma decide_Follow_depth:
  "decide cfg w visited url depth doc = Follow next \<Longrightarrow> depth < MAX_DEPTH cfg"
  by (auto simp: decide_def iframe_branch_def script_branch_def fallback_def Let_def
           split: if_splits option.splits)

text \<open>
  \<open>resolve(url, depth)\<close>.  The closure's \<open>visited\<close> set and the proxy manager are
  passed in and returned; the third component of the result lists, in order, the URLs
  handed to \<open>fetchHtmlWithRetry\<close>.  \<open>None\<close> as result is \<open>null\<close>.
\<close>

function resolve ::
  "config \<Rightarrow> world \<Rightarrow> proxy_manager \<Rightarrow> string set \<Rightarrow> string \<Rightarrow> nat
     \<Rightarrow> string option \<times> string set \<times> string list \<times> proxy_manager" where
  "resolve cfg w pm visited url depth =
     (if url = [] then (None, visited, [], pm)
      else if url \<in> visited then (Some url, visited, [], pm)
      else if depth > MAX_DEPTH cfg then (Some url, visited, [], pm)
      else
        (case fetchHtmlWithRetry (network w url) url (maxRetries cfg) pm of
           (Inl err, pm1) \<Rightarrow> (None, insert url visited, [url], pm1)
         | (Inr html, pm1) \<Rightarrow>
             (case decide cfg w (insert url visited) url depth (parse w html url) of
                Return r \<Rightarrow> (r, insert url visited, [url], pm1)
              | Follow next \<Rightarrow>
                  (case resolve cfg w pm1 (insert url visited) next (depth + 1) of
                     (r, visited', fetched, pm2) \<Rightarrow> (r, visited', url # fetched, pm2)))))"
  by pat_completeness auto
termination
  by (relation "measure (\<lambda>(cfg, w, pm, visited, url, depth). MAX_DEPTH cfg + 1 - depth)")
     (auto dest: decide_Follow_depth)

declare resolve.simps [simp del]

definition extractRealVideoUrl ::
  "config \<Rightarrow> world \<Rightarrow> proxy_manager \<Rightarrow> string
     \<Rightarrow> string option \<times> string set \<times> string list \<times> proxy_manager" where
  "extractRealVideoUrl cfg w pm intermediateUrl = resolve cfg w pm {} intermediateUrl 0"

section \<open>Resolving the servers of an episode (\<open>extractEmbeds\<close>)\<close>

text \<open>
  An entry of \<open>serverOptions\<close>: a candidate server found on the episode page, with either
  an intermediate reference (\<open>trembedUrl\<close>) or a direct external URL.  \<open>option\<close> is
  \<open>parseInt(nume) + 1\<close> or a position in the list; \<open>None\<close> stands for \<open>NaN\<close>.
\<close>

record server_option =
  so_name :: string
  trembedUrl :: "string option"
  directUrl :: "string option"
  so_option :: "int option"

text \<open>
  An element of \<open>embeds\<close>, the list that is persisted as the episode's \<open>servers\<close>; the
  fields are \<open>name\<close>, \<open>url\<close>, \<open>real_video\<close>, \<open>type\<close>, \<open>intermediate_url\<close> and \<open>option\<close>.
\<close>

record embed =
  em_name :: string
  em_url :: "string option"
  em_real_video :: "string option"
  em_type :: string
  em_intermediate_url :: "string option"
  em_option :: "int option"

text \<open>
  The body of the loop over \<open>serverOptions\<close>: the element pushed for one candidate, if
  any.  Every top-level resolution starts with its own empty visited set; the proxy
  manager is shared.
\<close>

definition resolve_server ::
  "config \<Rightarrow> world \<Rightarrow> proxy_manager \<Rightarrow> server_option \<Rightarrow> embed option \<times> proxy_manager" where
  "resolve_server cfg w pm server =
     (if truthy (directUrl server) then
        (Some \<lparr>em_name = so_name server, em_url = directUrl server,
               em_real_video = directUrl server, em_type = ''iframe'',
               em_intermediate_url = None, em_option = so_option server\<rparr>, pm)
      else
        (case trembedUrl server of
           None \<Rightarrow> (None, pm)
         | Some t \<Rightarrow>
             if t = [] then (None, pm)
             else
               (case extractRealVideoUrl cfg w pm t of
                  (realVideoUrl, visited, fetched, pm1) \<Rightarrow>
                    (case realVideoUrl of
                       None \<Rightarrow> (None, pm1)
                     | Some r \<Rightarrow>
                         if r \<noteq> [] \<and> r \<noteq> t \<and> \<not> includes_str r ''toonstream.one'' \<and>
                            \<not> includes_str r ''trembed''
                         then (Some \<lparr>em_name = so_name server, em_url = Some r,
                                      em_real_video = Some r, em_type = ''iframe'',
                                      em_intermediate_url = Some t,
                                      em_option = so_option server\<rparr>, pm1)
                         else (None, pm1)))))"

text \<open>The loop \<open>for (let i = 0; i < serverOptions.length; i++)\<close> of \<open>extractEmbeds\<close>.\<close>

fun extractEmbeds ::
  "config \<Rightarrow> world \<Rightarrow> proxy_manager \<Rightarrow> server_option list \<Rightarrow> embed list \<times> proxy_manager" where
  "extractEmbeds cfg w pm [] = ([], pm)"
| "extractEmbeds cfg w pm (server # rest) =
     (case resolve_server cfg w pm server of
        (pushed, pm1) \<Rightarrow>
          (case extractEmbeds cfg w pm1 rest of
             (embeds, pm2) \<Rightarrow>
               ((case pushed of None \<Rightarrow> embeds | Some e \<Rightarrow> e # embeds), pm2)))"

text \<open>\<open>episodePayload.servers?.length || 0\<close>, the count behind the skip and retry decisions.\<close>

definition serverCount :: "embed list \<Rightarrow> nat" where
  "serverCount servers = length servers"

section \<open>Slugs and source-site URLs\<close>

text \<open>
  The four spellings tested by \<open>cleanSlug\<close>; the first has a u with macron (U+016B),
  bytes C5 AB.
\<close>

definition narutoSpellings :: "string list" where
  "narutoSpellings =
     [''naruto shipp'' @ [CHR 0xC5, CHR 0xAB] @ ''den'', ''naruto shippuden'',
      ''naruto-shippuden'', ''naruto-shippden'']"

definition isDigit :: "char \<Rightarrow> bool" where
  "isDigit c = (c \<in> set ''0123456789'')"

text \<open>The regular-expression classes \<open>\w\<close> and \<open>\s\<close> on ASCII.\<close>

definition isWord :: "char \<Rightarrow> bool" where
  "isWord c = (c \<in> set ''abcdefghijklmnopqrstuvwxyzABCDEFGHIJKLMNOPQRSTUVWXYZ0123456789_'')"

definition isSpace :: "char \<Rightarrow> bool" where
  "isSpace c = (c \<in> set [CHR '' '', CHR 0x09, CHR 0x0A, CHR 0x0B, CHR 0x0C, CHR 0x0D])"

text \<open>\<open>-\d+x\d+\<close> matched against a whole string, ignoring case.\<close>

definition isCodeSuffix :: "string \<Rightarrow> bool" where
  "isCodeSuffix r =
     (case r of
        [] \<Rightarrow> False
      | c # r1 \<Rightarrow>
          c = CHR ''-'' \<and> takeWhile isDigit r1 \<noteq> [] \<and>
          (case dropWhile isDigit r1 of
             [] \<Rightarrow> False
           | x # r2 \<Rightarrow> (x = CHR ''x'' \<or> x = CHR ''X'') \<and> r2 \<noteq> [] \<and> list_all isDigit r2))"

text \<open>\<open>/^naruto-shipp[u]?den(-\d+x\d+)?$/i.test(s)\<close>.\<close>

definition narutoSlugPattern :: "string \<Rightarrow> bool" where
  "narutoSlugPattern s =
     (let t = toLowerCase s in
      if startsWith t ''naruto-shippuden'' then drop 16 t = [] \<or> isCodeSuffix (drop 16 t)
      else if startsWith t ''naruto-shippden'' then drop 15 t = [] \<or> isCodeSuffix (drop 15 t)
      else False)"

text \<open>\<open>s.replace(/X+/g, "-")\<close> for a character class X: every maximal run becomes one hyphen.\<close>

function squeeze :: "(char \<Rightarrow> bool) \<Rightarrow> string \<Rightarrow> string" where
  "squeeze P [] = []"
| "squeeze P (c # cs) = (if P c then CHR ''-'' # squeeze P (dropWhile P cs) else c # squeeze P cs)"
  by pat_completeness auto
termination
  by (relation "measure (\<lambda>(P, s). length s)") (auto simp: le_imp_less_Suc length_dropWhile_le)

text \<open>\<open>s.replace(/^-+|-+$/g, "")\<close>.\<close>

definition trimHyphens :: "string \<Rightarrow> string" where
  "trimHyphens s = rev (dropWhile (\<lambda>c. c = CHR ''-'') (rev (dropWhile (\<lambda>c. c = CHR ''-'') s)))"

text \<open>\<open>cleanSlug(name)\<close>; \<open>None\<close> is a \<open>null\<close> or \<open>undefined\<close> argument.\<close>

definition cleanSlug :: "string option \<Rightarrow> string" where
  "cleanSlug name =
     (case name of
        None \<Rightarrow> ''item''
      | Some n \<Rightarrow>
          if n = [] then ''item''
          else
            (let cleaned = toLowerCase n in
             if list_ex (includes_str cleaned) narutoSpellings then ''naruto-shippden''
             else if narutoSlugPattern cleaned then ''naruto-shippden''
             else
               trimHyphens
                 (squeeze (\<lambda>c. c = CHR ''-'')
                    (squeeze isSpace
                       (filter (\<lambda>c. isWord c \<or> isSpace c \<or> c = CHR ''-'')
                          (filter (\<lambda>c. c \<noteq> CHR 0x27 \<and> c \<noteq> CHR 0x22) cleaned))))))"

definition buildSeriesUrlFromSlug :: "config \<Rightarrow> world \<Rightarrow> string option \<Rightarrow> string option" where
  "buildSeriesUrlFromSlug cfg w seriesSlug =
     (case seriesSlug of
        None \<Rightarrow> None
      | Some slug \<Rightarrow>
          if slug = [] then None
          else
            (let urlSlug = (if slug = ''naruto-shippden'' then ''naruto-shippuden'' else slug)
             in Some (TOONSTREAM_ORIGIN cfg w @ ''/series/'' @ urlSlug @ ''/'')))"

definition buildEpisodeUrl :: "config \<Rightarrow> world \<Rightarrow> string option \<Rightarrow> nat \<Rightarrow> nat \<Rightarrow> string option" where
  "buildEpisodeUrl cfg w seriesSlug season episode =
     (case seriesSlug of
        None \<Rightarrow> None
      | Some slug \<Rightarrow>
          if slug = [] then None
          else
            (let urlSlug = (if slug = ''naruto-shippden'' then ''naruto-shippuden'' else slug)
             in Some (TOONSTREAM_ORIGIN cfg w @ ''/episode/'' @ urlSlug @ ''-'' @ show_nat season @
                      ''x'' @ show_nat episode @ ''/'')))"

section \<open>Episode codes and URLs\<close>

definition digit_value :: "char \<Rightarrow> nat" where
  "digit_value c = length (takeWhile (\<lambda>d. d \<noteq> c) ''0123456789'')"

text \<open>\<open>parseInt(digits, 10)\<close> on a string of decimal digits.\<close>

definition parse_digits :: "string \<Rightarrow> nat" where
  "parse_digits ds = foldl (\<lambda>n c. 10 * n + digit_value c) 0 ds"

text \<open>
  \<open>parseEpisodeCode(url)\<close>: the leftmost match of \<open>/(\d+)x(\d+)/i\<close>.  A match starts at a
  position where a maximal run of digits is followed by \<open>x\<close> and a digit.
\<close>

fun parseEpisodeCode :: "string \<Rightarrow> (nat \<times> nat) option" where
  "parseEpisodeCode [] = None"
| "parseEpisodeCode (c # cs) =
     (let ds = takeWhile isDigit (c # cs); rest = dropWhile isDigit (c # cs) in
      if ds \<noteq> [] \<and>
         (case rest of
            [] \<Rightarrow> False
          | x # r2 \<Rightarrow> (x = CHR ''x'' \<or> x = CHR ''X'') \<and> takeWhile isDigit r2 \<noteq> [])
      then Some (parse_digits ds, parse_digits (takeWhile isDigit (tl rest)))
      else parseEpisodeCode cs)"

declare parseEpisodeCode.simps [simp del]

definition makeSeasonEpisodeKey :: "nat \<Rightarrow> nat \<Rightarrow> string" where
  "makeSeasonEpisodeKey season episode = show_nat season @ ''x'' @ show_nat episode"

text \<open>A value inside a template string; \<open>null\<close> prints as \<open>null\<close>.\<close>

definition in_template :: "string option \<Rightarrow> string" where
  "in_template v = (case v of None \<Rightarrow> ''null'' | Some s \<Rightarrow> s)"

definition makeEpisodeKey :: "string option \<Rightarrow> nat \<Rightarrow> nat \<Rightarrow> string" where
  "makeEpisodeKey slug season episode =
     in_template slug @ ''::'' @ show_nat season @ ''x'' @ show_nat episode"

text \<open>\<open>a || b\<close> on values that may be \<open>null\<close>.\<close>

definition js_or :: "string option \<Rightarrow> string option \<Rightarrow> string option" where
  "js_or a b = (if truthy a then a else b)"

text \<open>\<open>extractSeriesSlugFromUrl(seriesUrl)\<close>; a \<open>null\<close> argument makes \<open>new URL\<close> throw.\<close>

definition extractSeriesSlugFromUrl :: "world \<Rightarrow> string option \<Rightarrow> string option" where
  "extractSeriesSlugFromUrl w seriesUrl =
     (case seriesUrl of
        None \<Rightarrow> None
      | Some u \<Rightarrow>
          (case urlPathSegments w u of
             None \<Rightarrow> None
           | Some parts \<Rightarrow> Some (cleanSlug (if parts = [] then None else Some (last parts)))))"

text \<open>\<open>s.replace(/-\d+x\d+$/i, "")\<close>: a match can only start at the last hyphen.\<close>

definition stripCodeSuffix :: "string \<Rightarrow> string" where
  "stripCodeSuffix s =
     (let tail = rev (takeWhile (\<lambda>c. c \<noteq> CHR ''-'') (rev s)) in
      if CHR ''-'' \<in> set s \<and> isCodeSuffix (CHR ''-'' # tail)
      then take (length s - length tail - 1) s
      else s)"

definition deriveSeriesUrlFromEpisode :: "config \<Rightarrow> world \<Rightarrow> string \<Rightarrow> string option" where
  "deriveSeriesUrlFromEpisode cfg w episodeUrl =
     (case urlPathSegments w episodeUrl of
        None \<Rightarrow> None
      | Some parts \<Rightarrow>
          (let episodeSlug = (if length parts > 1 then parts ! 1
                              else if parts = [] then [] else last parts) in
           if episodeSlug = [] then None
           else
             (let baseSlug = (if stripCodeSuffix episodeSlug = [] then episodeSlug
                              else stripCodeSuffix episodeSlug);
                  normalizedSlug = cleanSlug (Some baseSlug)
              in Some (TOONSTREAM_ORIGIN cfg w @ ''/series/'' @ normalizedSlug @ ''/''))))"

text \<open>The text after the first occurrence of a separator, if there is one.\<close>

fun after_first :: "string \<Rightarrow> string \<Rightarrow> string option" where
  "after_first sep [] = (if sep = [] then Some [] else None)"
| "after_first sep (c # cs) =
     (if startsWith (c # cs) sep then Some (drop (length sep) (c # cs)) else after_first sep cs)"

text \<open>The text before the first occurrence of a separator, or all of it.\<close>

fun before_first :: "string \<Rightarrow> string \<Rightarrow> string" where
  "before_first sep [] = []"
| "before_first sep (c # cs) = (if startsWith (c # cs) sep then [] else c # before_first sep cs)"

text \<open>\<open>isValidEpisodeUrl(url)\<close>; \<open>episodePart\<close> is \<open>url.split('/episode/')[1]\<close>.\<close>

definition isValidEpisodeUrl :: "string option \<Rightarrow> bool" where
  "isValidEpisodeUrl url =
     (case url of
        None \<Rightarrow> False
      | Some u \<Rightarrow>
          if u = [] then False
          else if \<not> includes_str u ''/episode/'' then False
          else
            (case after_first ''/episode/'' u of
               None \<Rightarrow> False
             | Some rest \<Rightarrow>
                 (let episodePart = before_first ''/episode/'' rest in
                  if episodePart = [] \<or> episodePart = ''/'' then False
                  else if endsWith u ''/episode/'' \<or> endsWith u ''/episode'' then False
                  else True)))"

section \<open>Sync orchestrator\<close>

text \<open>
  The fields of \<open>episodePayload\<close> that the orchestrator reads back.  \<open>buildEpisodeRecord\<close>
  stores one image (\<open>bestTmdbImage\<close>) under all its thumbnail and poster fields.  A
  \<open>servers\<close> column that is \<open>null\<close> counts like the empty list.
\<close>

record episode_payload =
  ep_title :: string
  ep_thumbnail :: "string option"
  ep_servers :: "embed list"

text \<open>A row of \<open>episode_retries\<close>; \<open>retry_at\<close> is the instant in milliseconds.\<close>

record retry_row =
  rt_episode_url :: "string option"
  rt_retry_at :: nat
  rt_retry_count :: nat
  rt_status :: string

record latest_row =
  lt_series_title :: string
  lt_episode_title :: string
  lt_thumbnail :: "string option"
  lt_added_at :: nat

text \<open>The global \<open>stats\<close> object.\<close>

record sync_stats =
  newEpisodes :: nat
  updatedEpisodes :: nat
  failedEpisodes :: nat
  skippedEpisodes :: nat
  totalServers :: nat
  seriesProcessed :: "string set"

text \<open>
  Everything the orchestrator mutates: the three collections of the store, keyed by
  (series slug, season, episode), the keys of the local episode cache, the in-memory set
  of processed episodes, and the counters.  The store is the one of the specification:
  upsert by key, delete by key, and a read that reflects the writes before it; its
  calls do not fail.
\<close>

record sync_state =
  episodes :: "string \<times> nat \<times> nat \<rightharpoonup> episode_payload"
  episode_retries :: "string \<times> nat \<times> nat \<rightharpoonup> retry_row"
  latest_episodes :: "string \<times> nat \<times> nat \<rightharpoonup> latest_row"
  localEpisodeCache :: "string set"
  processedEpisodes :: "string set"
  stats :: sync_stats

text \<open>A query with \<open>.eq("series_slug", slug)\<close>; a \<open>null\<close> slug matches no row.\<close>

definition episode_row :: "sync_state \<Rightarrow> string option \<Rightarrow> nat \<Rightarrow> nat \<Rightarrow> episode_payload option" where
  "episode_row st slug season episode =
     (case slug of None \<Rightarrow> None | Some s \<Rightarrow> episodes st (s, season, episode))"

text \<open>
  The object returned by \<open>checkEpisodeNeedsUpdate\<close>.  The function sets no
  \<open>retry_count\<close>, which \<open>syncEpisodeByUrl\<close> nevertheless reads.
\<close>

record update_check =
  uc_exists :: bool
  uc_needsUpdate :: bool
  uc_hasThumbnail :: bool
  uc_thumbnailUrl :: "string option"
  uc_retry_count :: "nat option"

definition checkEpisodeNeedsUpdate :: "sync_state \<Rightarrow> string option \<Rightarrow> nat \<Rightarrow> nat \<Rightarrow> update_check" where
  "checkEpisodeNeedsUpdate st seriesSlug season episode =
     (case episode_row st seriesSlug season episode of
        None \<Rightarrow> \<lparr>uc_exists = False, uc_needsUpdate = True, uc_hasThumbnail = False,
                  uc_thumbnailUrl = None, uc_retry_count = None\<rparr>
      | Some row \<Rightarrow>
          (let hasServers = (length (ep_servers row) > 0);
               needsThumbnail = (\<not> truthy (ep_thumbnail row))
           in \<lparr>uc_exists = True, uc_needsUpdate = (\<not> hasServers \<or> needsThumbnail),
               uc_hasThumbnail = truthy (ep_thumbnail row),
               uc_thumbnailUrl = ep_thumbnail row, uc_retry_count = None\<rparr>))"

definition episodeExistsInSupabase :: "sync_state \<Rightarrow> string \<Rightarrow> nat \<Rightarrow> nat \<Rightarrow> bool" where
  "episodeExistsInSupabase st seriesSlug season episode =
     (episodes st (seriesSlug, season, episode) \<noteq> None)"

text \<open>The backoff intervals of \<open>upsertEpisode\<close>: 3, 5 and 10 hours in milliseconds.\<close>

definition intervals :: "nat list" where
  "intervals = [3 * 60 * 60 * 1000, 5 * 60 * 60 * 1000, 10 * 60 * 60 * 1000]"

text \<open>
  \<open>upsertEpisode\<close>.  \<open>now\<close> is the value of \<open>Date.now()\<close>.  The random cache-busting key
  written to the series is left out.
\<close>

definition upsertEpisode ::
  "config \<Rightarrow> world \<Rightarrow> nat \<Rightarrow> string \<Rightarrow> string \<Rightarrow> nat \<Rightarrow> nat \<Rightarrow> episode_payload
     \<Rightarrow> sync_state \<Rightarrow> sync_state" where
  "upsertEpisode cfg w now seriesSlug seriesTitle season episode episodePayload st =
     (let k = (seriesSlug, season, episode);
          st1 = st\<lparr>episodes := (episodes st)(k \<mapsto> episodePayload)\<rparr>;
          count = serverCount (ep_servers episodePayload);
          st2 =
            (if count = 1 then
               (let currentRetryCount =
                      (case episode_retries st1 k of Some r \<Rightarrow> rt_retry_count r | None \<Rightarrow> 0)
                in if currentRetryCount < 3 then
                     st1\<lparr>episode_retries := (episode_retries st1)(k \<mapsto>
                        \<lparr>rt_episode_url = buildEpisodeUrl cfg w (Some seriesSlug) season episode,
                         rt_retry_at = now + intervals ! currentRetryCount,
                         rt_retry_count = currentRetryCount,
                         rt_status = ''pending''\<rparr>)\<rparr>
                   else st1)
             else if count > 1 then st1\<lparr>episode_retries := (episode_retries st1)(k := None)\<rparr>
             else st1);
          st3 = st2\<lparr>localEpisodeCache :=
                  insert (seriesSlug @ ''-'' @ show_nat season @ ''-'' @ show_nat episode)
                    (localEpisodeCache st2)\<rparr>
      in st3\<lparr>latest_episodes := (latest_episodes st3)(k \<mapsto>
            \<lparr>lt_series_title = seriesTitle, lt_episode_title = ep_title episodePayload,
             lt_thumbnail = (if truthy (ep_thumbnail episodePayload) then ep_thumbnail episodePayload
                             else None),
             lt_added_at = now\<rparr>)\<rparr>)"

text \<open>The \<open>hints\<close> that steer \<open>syncEpisodeByUrl\<close>.\<close>

record hints =
  h_force :: bool
  h_code :: "(nat \<times> nat) option"
  h_seriesSlug :: "string option"
  h_seriesUrl :: "string option"
  h_seriesTitle :: "string option"

text \<open>
  What \<open>buildEpisodeRecord\<close> returns: the slug and title of \<open>seriesCtx\<close>, the code and the
  payload, whose \<open>servers\<close> are the list returned by \<open>extractEmbeds\<close>.  The function
  itself (fetching the page, the series context, the images and the servers) is a
  parameter of the orchestrator: \<open>Inl\<close> is a thrown error.  It is taken to leave the
  state of the orchestrator alone: the series is known to the store or to the series
  cache, so that \<open>resolveSeriesContext\<close> does not fall back on a sync of the series.
\<close>

record build_result =
  br_slug :: string
  br_title :: string
  br_code :: "nat \<times> nat"
  br_payload :: episode_payload

datatype sync_result = Threw string | Returned "(string \<times> nat \<times> nat) option"

text \<open>
  The loop \<open>for (attempt = 1; attempt <= 3; attempt++)\<close> of \<open>syncEpisodeByUrl\<close>, counted by
  the attempts that remain.  It writes the retry schedule, upserts, and returns once the
  episode is found in the store; when the loop runs out the function returns
  \<open>undefined\<close>.
\<close>

fun sync_attempts ::
  "nat \<Rightarrow> config \<Rightarrow> world \<Rightarrow> (string \<Rightarrow> hints \<Rightarrow> string + build_result) \<Rightarrow> nat \<Rightarrow> string
     \<Rightarrow> hints \<Rightarrow> update_check \<Rightarrow> sync_state \<Rightarrow> sync_result \<times> sync_state" where
  "sync_attempts 0 cfg w build now episodeUrl hs updateCheck st = (Returned None, st)"
| "sync_attempts (Suc remaining) cfg w build now episodeUrl hs updateCheck st =
     (case build episodeUrl hs of
        Inl msg \<Rightarrow> (Threw msg, st)
      | Inr b \<Rightarrow>
          (let k = (br_slug b, fst (br_code b), snd (br_code b));
               count = serverCount (ep_servers (br_payload b));
               st1 =
                 (if count = 1 then
                    st\<lparr>episode_retries := (episode_retries st)(k \<mapsto>
                       \<lparr>rt_episode_url = Some episodeUrl,
                        rt_retry_at = now + 5 * 60 * 60 * 1000,
                        rt_retry_count =
                          (case uc_retry_count updateCheck of None \<Rightarrow> 0 | Some n \<Rightarrow> n) + 1,
                        rt_status = ''pending''\<rparr>)\<rparr>
                  else if count > 1 then st\<lparr>episode_retries := (episode_retries st)(k := None)\<rparr>
                  else st);
               isUpdate = (if h_force hs then uc_exists updateCheck
                           else uc_exists updateCheck \<and> uc_needsUpdate updateCheck);
               st2 = upsertEpisode cfg w now (br_slug b) (br_title b) (fst (br_code b))
                       (snd (br_code b)) (br_payload b) st1
           in if episodeExistsInSupabase st2 (br_slug b) (fst (br_code b)) (snd (br_code b)) then
                (Returned (Some k),
                 st2\<lparr>stats := (stats st2)
                    \<lparr>totalServers := totalServers (stats st2) + count,
                     seriesProcessed := insert (br_slug b) (seriesProcessed (stats st2)),
                     updatedEpisodes := updatedEpisodes (stats st2) + (if isUpdate then 1 else 0),
                     newEpisodes := newEpisodes (stats st2) + (if isUpdate then 0 else 1)\<rparr>\<rparr>)
              else sync_attempts remaining cfg w build now episodeUrl hs updateCheck st2))"

definition skip_episode :: "sync_state \<Rightarrow> sync_state" where
  "skip_episode st = st\<lparr>stats := (stats st)\<lparr>skippedEpisodes := skippedEpisodes (stats st) + 1\<rparr>\<rparr>"

text \<open>
  \<open>syncEpisodeByUrl(episodeUrl, hints)\<close>: the three skip tiers (processed set, local
  cache, store), then the loop above.
\<close>

definition syncEpisodeByUrl ::
  "config \<Rightarrow> world \<Rightarrow> (string \<Rightarrow> hints \<Rightarrow> string + build_result) \<Rightarrow> nat \<Rightarrow> string \<Rightarrow> hints
     \<Rightarrow> sync_state \<Rightarrow> sync_result \<times> sync_state" where
  "syncEpisodeByUrl cfg w build now episodeUrl hs st =
     (case (case h_code hs of Some c \<Rightarrow> Some c | None \<Rightarrow> parseEpisodeCode episodeUrl) of
        None \<Rightarrow> (Returned None, st)
      | Some code \<Rightarrow>
          (let pkey = makeEpisodeKey
                        (js_or (h_seriesSlug hs)
                           (extractSeriesSlugFromUrl w (js_or (h_seriesUrl hs) (Some episodeUrl))))
                        (fst code) (snd code)
           in if pkey \<in> processedEpisodes st \<and> \<not> h_force hs then (Returned None, st)
              else
                (let st0 = st\<lparr>processedEpisodes := insert pkey (processedEpisodes st)\<rparr>;
                     seriesUrl = js_or (h_seriesUrl hs) (deriveSeriesUrlFromEpisode cfg w episodeUrl);
                     seriesSlug = js_or (h_seriesSlug hs) (extractSeriesSlugFromUrl w seriesUrl);
                     epKey = in_template seriesSlug @ ''-'' @ show_nat (fst code) @ ''-'' @
                             show_nat (snd code)
                 in if epKey \<in> localEpisodeCache st0 \<and> \<not> h_force hs
                    then (Returned None, skip_episode st0)
                    else
                      (let updateCheck = checkEpisodeNeedsUpdate st0 seriesSlug (fst code) (snd code);
                           hasScrapedThumbnail =
                             (uc_exists updateCheck \<and> uc_hasThumbnail updateCheck \<and>
                              (case uc_thumbnailUrl updateCheck of
                                 None \<Rightarrow> False
                               | Some t \<Rightarrow> t \<noteq> [] \<and> includes_str t ''toonstream.one''))
                       in if uc_exists updateCheck \<and> \<not> uc_needsUpdate updateCheck \<and> \<not> h_force hs \<and>
                             uc_hasThumbnail updateCheck \<and> \<not> hasScrapedThumbnail
                          then (Returned None,
                                skip_episode (st0\<lparr>localEpisodeCache :=
                                                insert epKey (localEpisodeCache st0)\<rparr>))
                          else sync_attempts 3 cfg w build now episodeUrl
                                 (hs\<lparr>h_seriesUrl := seriesUrl, h_seriesSlug := seriesSlug,
                                     h_code := Some code\<rparr>)
                                 updateCheck st0))))"

text \<open>An entry of \<open>allEpisodeLinks\<close>.\<close>

record episode_link =
  l_url :: "string option"
  l_season :: nat
  l_episode :: nat
  l_title :: string

text \<open>The series context handed to \<open>ensureSeriesComplete\<close>.\<close>

record series_ctx =
  sc_slug :: "string option"
  sc_title :: string
  sc_url :: "string option"

text \<open>
  The loop \<open>for (const link of episodesToSync)\<close>.  The first component is the message of
  an error thrown by \<open>syncEpisodeByUrl\<close>, which ends the loop.
\<close>

fun sync_missing ::
  "config \<Rightarrow> world \<Rightarrow> (string \<Rightarrow> hints \<Rightarrow> string + build_result) \<Rightarrow> nat \<Rightarrow> string option
     \<Rightarrow> series_ctx \<Rightarrow> episode_link list \<Rightarrow> sync_state \<Rightarrow> string option \<times> sync_state" where
  "sync_missing cfg w build now slug ctx [] st = (None, st)"
| "sync_missing cfg w build now slug ctx (link # rest) st =
     (let rebuiltUrl = buildEpisodeUrl cfg w slug (l_season link) (l_episode link);
          url = (if isValidEpisodeUrl (l_url link) then l_url link
                 else if isValidEpisodeUrl rebuiltUrl then rebuiltUrl else None)
      in case url of
           None \<Rightarrow> sync_missing cfg w build now slug ctx rest (skip_episode st)
         | Some u \<Rightarrow>
             (case syncEpisodeByUrl cfg w build now u
                     \<lparr>h_force = True, h_code = Some (l_season link, l_episode link),
                      h_seriesSlug = None, h_seriesUrl = sc_url ctx,
                      h_seriesTitle = Some (sc_title ctx)\<rparr> st of
                (Threw msg, st1) \<Rightarrow> (Some msg, st1)
              | (Returned r, st1) \<Rightarrow> sync_missing cfg w build now slug ctx rest st1))"

text \<open>
  What \<open>ensureSeriesComplete\<close> reads from the source site: the episode links of the
  series page (\<open>extractSeriesEpisodeLinks\<close>, one per season and episode), the season
  numbers (\<open>extractSeasonNumbers\<close>) and, per season, the episodes that the season API
  returns (\<open>fetchEpisodeDataFromAPI\<close>, \<open>None\<close> for \<open>null\<close>).  An absent title is the
  empty string.
\<close>

record series_page =
  htmlEpisodeLinks :: "episode_link list"
  seasons :: "nat list"
  apiEpisodeData :: "nat \<Rightarrow> episode_link list option"

text \<open>\<open>htmlUrlMap.get(`${ep.season}x${ep.episode}`)\<close>: the last link set under the key.\<close>

definition htmlUrlMap_get :: "episode_link list \<Rightarrow> nat \<Rightarrow> nat \<Rightarrow> episode_link option" where
  "htmlUrlMap_get links season episode =
     List.find (\<lambda>h. l_season h = season \<and> l_episode h = episode) (rev links)"

text \<open>
  The body of the loop over the episodes of one season: the link pushed for an episode
  of the API, if any.  The URL is built from the slug; the URLs of the page and of the
  API are fallbacks.
\<close>

definition api_link ::
  "config \<Rightarrow> world \<Rightarrow> string option \<Rightarrow> episode_link list \<Rightarrow> episode_link \<Rightarrow> episode_link option" where
  "api_link cfg w slug htmlLinks ep =
     (let htmlEp = htmlUrlMap_get htmlLinks (l_season ep) (l_episode ep);
          builtUrl = buildEpisodeUrl cfg w slug (l_season ep) (l_episode ep);
          validUrl =
            (if isValidEpisodeUrl builtUrl then builtUrl
             else
               (case htmlEp of
                  Some h \<Rightarrow>
                    if isValidEpisodeUrl (l_url h) then l_url h
                    else if isValidEpisodeUrl (l_url ep) then l_url ep else builtUrl
                | None \<Rightarrow> if isValidEpisodeUrl (l_url ep) then l_url ep else builtUrl))
      in if \<not> isValidEpisodeUrl validUrl then None
         else Some \<lparr>l_url = validUrl, l_season = l_season ep, l_episode = l_episode ep,
                    l_title = (if l_title ep \<noteq> [] then l_title ep
                               else (case htmlEp of Some h \<Rightarrow> l_title h | None \<Rightarrow> []))\<rparr>)"

text \<open>The fallback loop over the links of the page.\<close>

definition html_link :: "config \<Rightarrow> world \<Rightarrow> string option \<Rightarrow> episode_link \<Rightarrow> episode_link option" where
  "html_link cfg w slug ep =
     (let builtUrl = buildEpisodeUrl cfg w slug (l_season ep) (l_episode ep);
          episodeUrl = (if \<not> isValidEpisodeUrl builtUrl \<and> isValidEpisodeUrl (l_url ep)
                        then l_url ep else builtUrl)
      in if \<not> isValidEpisodeUrl episodeUrl then None
         else Some \<lparr>l_url = episodeUrl, l_season = l_season ep, l_episode = l_episode ep,
                    l_title = l_title ep\<rparr>)"

text \<open>\<open>allEpisodeLinks\<close> as the first part of \<open>ensureSeriesComplete\<close> assembles it.\<close>

definition allEpisodeLinks :: "config \<Rightarrow> world \<Rightarrow> string option \<Rightarrow> series_page \<Rightarrow> episode_link list" where
  "allEpisodeLinks cfg w slug page =
     (let fromApi =
            concat (map (\<lambda>season.
                       case apiEpisodeData page season of
                         None \<Rightarrow> []
                       | Some episodeData \<Rightarrow>
                           List.map_filter (api_link cfg w slug (htmlEpisodeLinks page)) episodeData)
                     (seasons page))
      in if fromApi = [] \<and> htmlEpisodeLinks page \<noteq> []
         then List.map_filter (html_link cfg w slug) (htmlEpisodeLinks page)
         else fromApi)"

text \<open>
  \<open>ensureSeriesComplete(seriesCtx)\<close>.  \<open>fetched\<close> is the outcome of fetching and parsing
  the series page: \<open>Inl\<close> for the error thrown when the page cannot be fetched.
  \<open>existingEpisodes.has(makeSeasonEpisodeKey(season, episode))\<close> holds exactly when the
  store has a row for the slug, the season and the episode.  An error thrown anywhere
  is caught at the end and counted.
\<close>

definition ensureSeriesComplete ::
  "config \<Rightarrow> world \<Rightarrow> (string \<Rightarrow> hints \<Rightarrow> string + build_result) \<Rightarrow> nat \<Rightarrow> series_ctx
     \<Rightarrow> string + series_page \<Rightarrow> sync_state \<Rightarrow> sync_state" where
  "ensureSeriesComplete cfg w build now ctx fetched st =
     (let slug = (if \<not> truthy (sc_slug ctx) \<and> truthy (sc_url ctx)
                  then extractSeriesSlugFromUrl w (sc_url ctx) else sc_slug ctx)
      in if \<not> truthy slug then st
         else
           (case fetched of
              Inl msg \<Rightarrow> st\<lparr>stats := (stats st)\<lparr>failedEpisodes := failedEpisodes (stats st) + 1\<rparr>\<rparr>
            | Inr page \<Rightarrow>
                if allEpisodeLinks cfg w slug page = [] then st
                else
                  (let missing = filter (\<lambda>link. episode_row st slug (l_season link) (l_episode link) = None)
                                   (allEpisodeLinks cfg w slug page)
                   in if missing = [] then st
                      else
                        (case sync_missing cfg w build now slug ctx missing st of
                           (None, st1) \<Rightarrow> st1
                         | (Some msg, st1) \<Rightarrow>
                             st1\<lparr>stats := (stats st1)
                                  \<lparr>failedEpisodes := failedEpisodes (stats st1) + 1\<rparr>\<rparr>))))"

section \<open>Loading the proxy pool (\<open>ProxyManager.initialize\<close>)\<close>

text \<open>\<open>s.split(d)\<close> for a separator of one character, and \<open>s.trim()\<close> on ASCII white space.\<close>

fun split_on :: "char \<Rightarrow> string \<Rightarrow> string list" where
  "split_on d [] = [[]]"
| "split_on d (c # cs) =
     (if c = d then [] # split_on d cs
      else (case split_on d cs of [] \<Rightarrow> [[c]] | x # xs \<Rightarrow> (c # x) # xs))"

definition trim :: "string \<Rightarrow> string" where
  "trim s = rev (dropWhile isSpace (rev (dropWhile isSpace s)))"

text \<open>
  \<open>parseProxyEntries\<close>: the raw list is split at every line feed and comma, the
  pieces are trimmed and the empty ones dropped.
\<close>

definition parseProxyEntries :: "string \<Rightarrow> string list" where
  "parseProxyEntries rawList =
     filter (\<lambda>entry. entry \<noteq> [])
       (map trim (concat (map (split_on (CHR '','')) (split_on (CHR 0x0A) rawList))))"

text \<open>
  The settings the constructor reads from the environment and the proxy file
  (\<open>customProxies\<close> is a result of \<open>parseProxyEntries\<close>); no method
  writes them.  \<open>maxProxyTests\<close> is \<open>Number(PROXY_MAX_TESTS || 15)\<close>, taken as a whole
  number; a setting that does not parse gives \<open>NaN\<close>, which is falsy like 0.
\<close>

record proxy_settings =
  customProxies :: "string list"
  validateCustomProxies :: bool
  maxProxyTests :: int

text \<open>
  What one call of \<open>initialize\<close> meets outside the program: the built-in
  \<open>encodeURIComponent\<close>, the result of the \<open>k\<close>-th health check made by
  \<open>testProxy\<close> (through the given proxy), and the answers of the two public proxy
  lists.
\<close>

record proxy_platform =
  encodeURIComponent :: "string \<Rightarrow> string"
  testProxy :: "nat \<Rightarrow> string \<Rightarrow> bool"
  proxySources :: "outcome \<times> outcome"

text \<open>The constructor; \<open>useProxyEnv\<close> is the variable \<open>USE_PROXY\<close>.\<close>

definition new_manager :: "string option \<Rightarrow> proxy_settings \<Rightarrow> proxy_manager" where
  "new_manager useProxyEnv st =
     \<lparr>proxies = [], currentIndex = 0, failedProxies = {},
      useProxy = (if useProxyEnv = None \<and> length (customProxies st) > 0 then True
                  else useProxyEnv = Some ''true'')\<rparr>"

text \<open>
  \<open>normalizeProxyEntry\<close>: an entry with a scheme is kept, \<open>host:port:user:password\<close>
  and \<open>host:port\<close> are rewritten as URLs, anything else is dropped.
\<close>

definition normalizeProxyEntry :: "(string \<Rightarrow> string) \<Rightarrow> string \<Rightarrow> string option" where
  "normalizeProxyEntry encode entry =
     (if entry = [] then None
      else
        (let trimmed = trim entry in
         if trimmed = [] then None
         else if startsWith (toLowerCase trimmed) ''http://'' \<or>
                 startsWith (toLowerCase trimmed) ''https://'' then Some trimmed
         else
           (let parts = filter (\<lambda>p. p \<noteq> []) (map trim (split_on (CHR '':'') trimmed)) in
            if length parts \<ge> 4 then
              (let host = parts ! 0; port = parts ! 1; username = parts ! 2; password = parts ! 3 in
               if host = [] \<or> port = [] \<or> username = [] \<or> password = [] then None
               else Some (''http://'' @ encode username @ '':'' @ encode password @ ''@'' @
                          host @ '':'' @ port))
            else if length parts = 2 then
              (let host = parts ! 0; port = parts ! 1 in
               if host = [] \<or> port = [] then None
               else Some (''http://'' @ host @ '':'' @ port))
            else None)))"

text \<open>
  The \<open>for (const proxy of this.proxies)\<close> loop of \<open>filterWorkingProxies\<close>; the result
  is the list \<open>tested\<close>.  Once \<open>maxProxyTests\<close> checks have been made, the remaining
  entries are kept unchecked.
\<close>

fun health_loop :: "int \<Rightarrow> (nat \<Rightarrow> string \<Rightarrow> bool) \<Rightarrow> string list \<Rightarrow> nat \<Rightarrow> string list" where
  "health_loop maxTests test [] checked = []"
| "health_loop maxTests test (proxy # rest) checked =
     (if maxTests \<noteq> 0 \<and> int checked \<ge> maxTests then proxy # health_loop maxTests test rest checked
      else if test (checked + 1) proxy then proxy # health_loop maxTests test rest (checked + 1)
      else health_loop maxTests test rest (checked + 1))"

text \<open>
  \<open>filterWorkingProxies\<close>: the pool becomes the entries that passed, unless none did.
  Neither \<open>currentIndex\<close> nor \<open>failedProxies\<close> is touched.
\<close>

definition filterWorkingProxies ::
  "(nat \<Rightarrow> string \<Rightarrow> bool) \<Rightarrow> proxy_settings \<Rightarrow> proxy_manager \<Rightarrow> proxy_manager" where
  "filterWorkingProxies test st pm =
     (if \<not> validateCustomProxies st \<or> length (proxies pm) = 0 then pm
      else
        (let tested = health_loop (maxProxyTests st) test (proxies pm) 0 in
         if length tested = 0 then pm else pm\<lparr>proxies := tested\<rparr>))"

text \<open>
  \<open>fetchFreeProxies\<close>: the first source that answers (with the client's default test
  on the status) with at least one line holding a colon contributes its first 20 such
  lines, which are appended to the pool.
\<close>

fun free_list :: "outcome list \<Rightarrow> string list" where
  "free_list [] = []"
| "free_list (out # rest) =
     (case out of
        Response status body \<Rightarrow>
          if 200 \<le> status \<and> status < 300 then
            (let proxyList = filter (\<lambda>p. p \<noteq> [] \<and> includes_str p '':'')
                               (map trim (split_on (CHR 0x0A) body)) in
             if length proxyList > 0 then take 20 proxyList else free_list rest)
          else free_list rest
      | NetworkError c m \<Rightarrow> free_list rest)"

definition fetchFreeProxies :: "outcome \<times> outcome \<Rightarrow> proxy_manager \<Rightarrow> proxy_manager" where
  "fetchFreeProxies answers pm =
     (let pm1 = pm\<lparr>proxies := proxies pm @ free_list [fst answers, snd answers]\<rparr> in
      if length (proxies pm1) = 0 then pm1\<lparr>useProxy := False\<rparr> else pm1)"

text \<open>
  \<open>initialize\<close>, which \<open>main\<close> calls on the one manager of the module at the start of
  every run; the server process runs \<open>main\<close> again on every tick of its schedule.
\<close>

definition initialize :: "proxy_platform \<Rightarrow> proxy_settings \<Rightarrow> proxy_manager \<Rightarrow> proxy_manager" where
  "initialize pf st pm =
     (if \<not> useProxy pm then pm
      else if length (customProxies st) > 0 then
        (let pm1 = pm\<lparr>proxies := map the (filter truthy
                        (map (normalizeProxyEntry (encodeURIComponent pf)) (customProxies st)))\<rparr> in
         if length (proxies pm1) = 0 then pm1\<lparr>useProxy := False\<rparr>
         else filterWorkingProxies (testProxy pf) st pm1)
      else fetchFreeProxies (proxySources pf) pm)"

section \<open>Concrete pools and networks used to exercise the fetch layer\<close>

text \<open>Marking every entry of the pool as failed, one call of \<open>markProxyAsFailed\<close> each.\<close>

definition markAll :: "proxy_manager \<Rightarrow> proxy_manager" where
  "markAll pm = foldl (\<lambda>s p. markProxyAsFailed s (Some p)) pm (proxies pm)"

definition pool3 :: proxy_manager where
  "pool3 = \<lparr>proxies = [''http://10.0.0.1:8080'', ''http://10.0.0.2:8080'', ''http://10.0.0.3:8080''],
            currentIndex = 1, failedProxies = {}, useProxy = True\<rparr>"

text \<open>The manager of a run without proxies (direct connection).\<close>

definition direct :: proxy_manager where
  "direct = \<lparr>proxies = [], currentIndex = 0, failedProxies = {}, useProxy = False\<rparr>"

text \<open>A server that answers 503 twice and then 200, and one that never answers.\<close>

definition net_flaky :: "nat \<Rightarrow> outcome" where
  "net_flaky i = (if i < 3 then Response 503 ''busy'' else Response 200 ''<html></html>'')"

definition net_down :: "nat \<Rightarrow> outcome" where
  "net_down i = NetworkError ''ETIMEDOUT'' ''timeout of 30000ms exceeded''"

text \<open>
  A server process configured with three proxies.  In its first run all three pass the
  health check; the home page is fetched at the second attempt, and then an episode
  page that cannot be reached is tried three times, each time-out tombstoning the proxy
  used.  In the second run the third proxy does not pass the health check any more.
\<close>

definition three_proxies :: proxy_settings where
  "three_proxies =
     \<lparr>customProxies = parseProxyEntries ''http://10.0.0.1:8080,10.0.0.2:8080, http://10.0.0.3:8080'',
      validateCustomProxies = True, maxProxyTests = 15\<rparr>"

definition all_healthy :: proxy_platform where
  "all_healthy = \<lparr>encodeURIComponent = (\<lambda>s. s), testProxy = (\<lambda>k p. True),
                   proxySources = (NetworkError ''ENOTFOUND'' ''getaddrinfo ENOTFOUND'',
                                   NetworkError ''ENOTFOUND'' ''getaddrinfo ENOTFOUND'')\<rparr>"

definition third_down :: proxy_platform where
  "third_down = all_healthy\<lparr>testProxy := (\<lambda>k p. p \<noteq> ''http://10.0.0.3:8080'')\<rparr>"

definition net_busy_once :: "nat \<Rightarrow> outcome" where
  "net_busy_once i = (if i < 2 then Response 503 ''busy'' else Response 200 ''<html></html>'')"

definition first_run :: proxy_manager where
  "first_run =
     snd (fetchHtmlWithRetry net_down ''https://toonstream.one/episode/b-1x2/'' 3
       (snd (fetchHtmlWithRetry net_busy_once ''https://toonstream.one/home/'' 3
          (initialize all_healthy three_proxies (new_manager None three_proxies)))))"

definition second_run :: proxy_manager where
  "second_run = initialize third_down three_proxies first_run"

section \<open>Reading the result of a resolution\<close>

definition result_of :: "string option \<times> string set \<times> string list \<times> proxy_manager \<Rightarrow> string option" where
  "result_of r = fst r"

definition fetched_of :: "string option \<times> string set \<times> string list \<times> proxy_manager \<Rightarrow> string list" where
  "fetched_of r = fst (snd (snd r))"

text \<open>What \<open>resolve\<close> returns when its body ends in \<open>return resolve(next, depth + 1)\<close>.\<close>

definition via ::
  "string \<Rightarrow> string option \<times> string set \<times> string list \<times> proxy_manager
     \<Rightarrow> string option \<times> string set \<times> string list \<times> proxy_manager" where
  "via url r = (case r of (res, visited', fetched, pm2) \<Rightarrow> (res, visited', url # fetched, pm2))"

section \<open>Concrete sites used to exercise the resolver\<close>

text \<open>The host of an \<open>https\<close> URL, enough of a URL parser for the sites below.\<close>

definition https_host :: "string \<Rightarrow> string option" where
  "https_host u =
     (if startsWith u ''https://''
      then Some (takeWhile (\<lambda>c. c \<noteq> CHR ''/'' \<and> c \<noteq> CHR ''?'') (drop 8 u))
      else None)"

text \<open>The non-empty path segments of an \<open>https\<close> URL.\<close>

definition https_segments :: "string \<Rightarrow> string list option" where
  "https_segments u =
     (if startsWith u ''https://''
      then Some (filter (\<lambda>seg. seg \<noteq> [])
                  (split_on (CHR ''/'')
                     (takeWhile (\<lambda>c. c \<noteq> CHR ''?'' \<and> c \<noteq> CHR ''#'')
                        (dropWhile (\<lambda>c. c \<noteq> CHR ''/'') (drop 8 u)))))
      else None)"

definition empty_doc :: document where
  "empty_doc = \<lparr>videoSrcs = [], iframeSrcs = [], scriptCandidates = []\<rparr>"

text \<open>
  A world made of the listed pages: a listed URL answers 200 and parses to its
  document, any other URL answers 404.
\<close>

definition site :: "(string \<times> document) list \<Rightarrow> world" where
  "site pages =
     \<lparr>network = (\<lambda>u i. if map_of pages u = None then Response 404 ''Not Found''
                         else Response 200 ''<html>''),
      parse = (\<lambda>html u. case map_of pages u of Some d \<Rightarrow> d | None \<Rightarrow> empty_doc),
      urlHostname = https_host,
      urlOrigin = (\<lambda>u. map_option (\<lambda>h. ''https://'' @ h) (https_host u)),
      urlPathSegments = https_segments\<rparr>"

definition cfg0 :: config where
  "cfg0 = \<lparr>homeUrl = ''https://toonstream.one/home/'', maxRetries = 3, embedMaxDepth = 3\<rparr>"

text \<open>Two same-site redirection pages whose iframes point at each other.\<close>

definition cyclic_site :: world where
  "cyclic_site = site
     [(''https://toonstream.one/?trembed=0'',
        \<lparr>videoSrcs = [], iframeSrcs = [Some ''https://toonstream.one/?trembed=1''], scriptCandidates = []\<rparr>),
      (''https://toonstream.one/?trembed=1'',
        \<lparr>videoSrcs = [], iframeSrcs = [Some ''https://toonstream.one/?trembed=0''], scriptCandidates = []\<rparr>)]"

text \<open>
  A page with a media element whose source has no media signature, next to an iframe
  to a same-site redirection page.
\<close>

definition mixed_site :: world where
  "mixed_site = site
     [(''https://toonstream.one/?trembed=0'',
        \<lparr>videoSrcs = [Some ''https://cdn.example.com/clip''],
         iframeSrcs = [Some ''https://toonstream.one/?trembed=1''], scriptCandidates = []\<rparr>),
      (''https://toonstream.one/?trembed=1'', empty_doc)]"

text \<open>A page with a media file next to an iframe to a same-site redirection page.\<close>

definition media_site :: world where
  "media_site = site
     [(''https://toonstream.one/?trembed=0'',
        \<lparr>videoSrcs = [Some ''blob:https://toonstream.one/0a1b'', Some ''https://cdn.example.com/ep1.mp4''],
         iframeSrcs = [Some ''https://toonstream.one/?trembed=1''], scriptCandidates = []\<rparr>),
      (''https://toonstream.one/?trembed=1'', empty_doc)]"

text \<open>
  A chain of six same-site redirection pages; the last one embeds an external iframe
  that matches no player signature.
\<close>

definition hop :: "string \<Rightarrow> string \<Rightarrow> string \<times> document" where
  "hop u target = (u, \<lparr>videoSrcs = [], iframeSrcs = [Some target], scriptCandidates = []\<rparr>)"

definition deep_site :: world where
  "deep_site = site
     [hop ''https://toonstream.one/?trembed=0'' ''https://toonstream.one/?trembed=1'',
      hop ''https://toonstream.one/?trembed=1'' ''https://toonstream.one/?trembed=2'',
      hop ''https://toonstream.one/?trembed=2'' ''https://toonstream.one/?trembed=3'',
      hop ''https://toonstream.one/?trembed=3'' ''https://toonstream.one/?trembed=4'',
      hop ''https://toonstream.one/?trembed=4'' ''https://toonstream.one/?trembed=5'',
      hop ''https://toonstream.one/?trembed=5'' ''https://cdn.example.com/v/1'']"

text \<open>A redirection page whose only iframe is \<open>about:blank\<close>, and one with an external iframe.\<close>

definition blank_site :: world where
  "blank_site = site [hop ''https://toonstream.one/?trembed=0'' ''about:blank'']"

definition external_site :: world where
  "external_site = site
     [hop ''https://toonstream.one/?trembed=0'' ''https://cdn.example.com/v/1'',
      hop ''https://toonstream.one/?trembed=7'' ''https://toonstream.one/?trembed=0'']"

text \<open>
  An episode with four candidate servers: one that resolves to an external player, one
  whose chain ends on a page of the source site, one that cannot be fetched, and one
  with a direct external URL.
\<close>

definition episode_site :: world where
  "episode_site = site
     [hop ''https://toonstream.one/?trembed=0&trid=9&trtype=2'' ''https://play.zephyrflick.top/video/abc'',
      hop ''https://toonstream.one/?trembed=1&trid=9&trtype=2'' ''https://toonstream.one/player/9'',
      (''https://toonstream.one/player/9'', empty_doc)]"

definition candidate :: "string \<Rightarrow> int \<Rightarrow> string \<Rightarrow> server_option" where
  "candidate nm n t = \<lparr>so_name = nm, trembedUrl = Some t, directUrl = None, so_option = Some n\<rparr>"

definition four_servers :: "server_option list" where
  "four_servers =
     [candidate ''Server 1'' 1 ''https://toonstream.one/?trembed=0&trid=9&trtype=2'',
      candidate ''Server 2'' 2 ''https://toonstream.one/?trembed=1&trid=9&trtype=2'',
      candidate ''Server 3'' 3 ''https://toonstream.one/?trembed=2&trid=9&trtype=2'',
      \<lparr>so_name = ''Server 4'', trembedUrl = None, directUrl = Some ''https://vidmoly.to/embed-xyz.html'',
       so_option = Some 4\<rparr>]"

text \<open>
  An episode whose redirection page embeds an iframe on another host that carries the
  marker \<open>trid=\<close> and leads to an empty page.
\<close>

definition marker_site :: world where
  "marker_site = site
     [hop ''https://toonstream.one/?trembed=0&trid=9&trtype=2'' ''https://cdn.example.com/go?trid=9'',
      (''https://cdn.example.com/go?trid=9'', empty_doc)]"

definition marker_server :: "server_option list" where
  "marker_server = [candidate ''Server 1'' 1 ''https://toonstream.one/?trembed=0&trid=9&trtype=2'']"

section \<open>A concrete series used to exercise the orchestrator\<close>

definition player :: "string \<Rightarrow> embed" where
  "player u = \<lparr>em_name = ''Server'', em_url = Some u, em_real_video = Some u, em_type = ''iframe'',
              em_intermediate_url = None, em_option = Some 1\<rparr>"

definition complete_payload :: episode_payload where
  "complete_payload =
     \<lparr>ep_title = ''Episode'', ep_thumbnail = Some ''https://image.tmdb.org/t/p/original/still.jpg'',
      ep_servers = [player ''https://play.zephyrflick.top/video/a'', player ''https://vidmoly.to/embed-b.html'']\<rparr>"

definition single_payload :: episode_payload where
  "single_payload = complete_payload\<lparr>ep_servers := [player ''https://play.zephyrflick.top/video/a'']\<rparr>"

definition no_stats :: sync_stats where
  "no_stats = \<lparr>newEpisodes = 0, updatedEpisodes = 0, failedEpisodes = 0, skippedEpisodes = 0,
               totalServers = 0, seriesProcessed = {}\<rparr>"

text \<open>
  The store holds 1x1 to 1x3 of the series complete and 1x4 with zero servers; the
  source lists 1x1 to 1x5.
\<close>

definition store_x :: sync_state where
  "store_x =
     \<lparr>episodes = map_of
        [((''series-x'', 1, 1), complete_payload), ((''series-x'', 1, 2), complete_payload),
         ((''series-x'', 1, 3), complete_payload),
         ((''series-x'', 1, 4), complete_payload\<lparr>ep_servers := []\<rparr>)],
      episode_retries = Map.empty, latest_episodes = Map.empty,
      localEpisodeCache = {}, processedEpisodes = {}, stats = no_stats\<rparr>"

definition link_x :: "nat \<Rightarrow> episode_link" where
  "link_x e = \<lparr>l_url = Some (''https://toonstream.one/episode/series-x-1x'' @ show_nat e @ ''/''),
               l_season = 1, l_episode = e, l_title = ''Episode''\<rparr>"

text \<open>The series page: one season, for which the season API lists the five episodes.\<close>

definition page_x :: "string + series_page" where
  "page_x = Inr \<lparr>htmlEpisodeLinks = map link_x [1, 2, 3, 4, 5], seasons = [1],
                    apiEpisodeData = (\<lambda>season. if season = 1 then Some (map link_x [1, 2, 3, 4, 5])
                                               else Some [])\<rparr>"

definition series_x :: series_ctx where
  "series_x = \<lparr>sc_slug = Some ''series-x'', sc_title = ''Series X'',
               sc_url = Some ''https://toonstream.one/series/series-x/''\<rparr>"

text \<open>A builder for the series that resolves every episode to the given payload.\<close>

definition build_x :: "episode_payload \<Rightarrow> string \<Rightarrow> hints \<Rightarrow> string + build_result" where
  "build_x payload episodeUrl hs =
     Inr \<lparr>br_slug = ''series-x'', br_title = ''Series X'',
          br_code = (case h_code hs of Some c \<Rightarrow> c | None \<Rightarrow> (1, 0)),
          br_payload = payload\<rparr>"

definition empty_store :: sync_state where
  "empty_store = \<lparr>episodes = Map.empty, episode_retries = Map.empty, latest_episodes = Map.empty,
                   localEpisodeCache = {}, processedEpisodes = {}, stats = no_stats\<rparr>"

definition plain_hints :: hints where
  "plain_hints = \<lparr>h_force = False, h_code = None, h_seriesSlug = None, h_seriesUrl = None,
                  h_seriesTitle = None\<rparr>"

text \<open>The state after one completeness pass over the series, at an arbitrary instant.\<close>

definition after_pass_x :: sync_state where
  "after_pass_x =
     ensureSeriesComplete cfg0 (site []) (build_x complete_payload) 1000 series_x page_x store_x"

text \<open>No entry of the retry schedule has an attempt count above 3.\<close>

definition retries_bounded :: "sync_state \<Rightarrow> bool" where
  "retries_bounded st = (\<forall>k r. episode_retries st k = Some r \<longrightarrow> rt_retry_count r \<le> 3)"

text \<open>A forced sync, as the retry pass and the completeness pass issue it.\<close>

definition forced_hints :: hints where
  "forced_hints = plain_hints\<lparr>h_force := True\<rparr>"

section \<open>String operations\<close>

text \<open>
  The three string tests agree with the library's notions of prefix, contiguous sublist
  and suffix.
\<close>

lemma startsWith_iff_prefix: "startsWith s p \<longleftrightarrow> prefix p s"
  by (induction s p rule: startsWith.induct) auto

lemma includes_str_iff_sublist: "includes_str s p \<longleftrightarrow> sublist p s"
  by (induction s) (auto simp: startsWith_iff_prefix sublist_Cons_right)

lemma endsWith_iff_suffix: "endsWith s p \<longleftrightarrow> suffix p s"
  by (simp add: endsWith_def startsWith_iff_prefix suffix_to_prefix)

section \<open>Proxy pool liveness\<close>

lemma getNextProxy_loop_all_failed:
  "set (proxies pm) \<subseteq> failedProxies pm \<Longrightarrow> currentIndex pm < length (proxies pm) \<Longrightarrow>
   a \<le> length (proxies pm) \<Longrightarrow>
   getNextProxy_loop pm a =
     (Some (hd (proxies pm)),
      pm\<lparr>currentIndex := (currentIndex pm + (length (proxies pm) - a)) mod length (proxies pm),
         failedProxies := {}\<rparr>)"
proof (induction pm a rule: getNextProxy_loop.induct)
  case (1 pm attempts)
  show ?case
  proof (cases "attempts < length (proxies pm)")
    case True
    let ?n = "length (proxies pm)"
    let ?pm' = "pm\<lparr>currentIndex := (currentIndex pm + 1) mod ?n\<rparr>"
    have pos: "0 < ?n" using True by (cases "proxies pm") auto
    have failed: "has_failed (failedProxies ?pm') (at_index (proxies pm) (currentIndex pm))"
      using "1.prems" by (auto simp: at_index_def)
    have "(currentIndex pm + 1) mod ?n < ?n" using pos by simp
    then have ih: "getNextProxy_loop ?pm' (attempts + 1) =
       (Some (hd (proxies ?pm')),
        ?pm'\<lparr>currentIndex := (currentIndex ?pm' + (length (proxies ?pm') - (attempts + 1))) mod length (proxies ?pm'),
         failedProxies := {}\<rparr>)"
      using "1.IH"[OF True refl refl] failed "1.prems" True by simp
    obtain k where k: "?n - attempts = Suc k" "?n - (attempts + 1) = k"
      using True by (metis Suc_diff_Suc Suc_eq_plus1)
    have "((currentIndex pm + 1) mod ?n + k) mod ?n = (currentIndex pm + 1 + k) mod ?n"
      by (rule mod_add_left_eq)
    then have idx: "((currentIndex pm + 1) mod ?n + (?n - (attempts + 1))) mod ?n
        = (currentIndex pm + (?n - attempts)) mod ?n"
      using k by simp
    show ?thesis
      by (subst getNextProxy_loop.simps) (use True failed ih idx in \<open>simp add: Let_def\<close>)
  next
    case False
    then have "attempts = length (proxies pm)" using "1.prems" by simp
    moreover have "proxies pm \<noteq> []" using "1.prems" by auto
    ultimately show ?thesis
      by (subst getNextProxy_loop.simps) (use "1.prems" in \<open>simp add: at_index_def hd_conv_nth\<close>)
  qed
qed

text \<open>
  Rotation alone keeps \<open>currentIndex\<close> below the size of the pool once it is there,
  and leaves the pool as it is.
\<close>

lemma getNextProxy_loop_keeps_index_in_range:
  "currentIndex pm < length (proxies pm) \<Longrightarrow>
   proxies (snd (getNextProxy_loop pm a)) = proxies pm \<and>
   currentIndex (snd (getNextProxy_loop pm a)) < length (proxies pm)"
proof (induction pm a rule: getNextProxy_loop.induct)
  case (1 pm attempts)
  show ?case
  proof (cases "attempts < length (proxies pm)")
    case False
    then show ?thesis using "1.prems" by (subst (1 2) getNextProxy_loop.simps) simp
  next
    case True
    let ?pm' = "pm\<lparr>currentIndex := (currentIndex pm + 1) mod length (proxies pm)\<rparr>"
    have pos: "0 < length (proxies pm)" using "1.prems" by (cases "proxies pm") auto
    then have in_range: "currentIndex ?pm' < length (proxies ?pm')" by simp
    show ?thesis
    proof (cases "has_failed (failedProxies ?pm') (at_index (proxies pm) (currentIndex pm))")
      case False
      then show ?thesis
        using True in_range by (subst (1 2) getNextProxy_loop.simps) (simp add: Let_def)
    next
      case failed: True
      have "proxies (snd (getNextProxy_loop ?pm' (attempts + 1))) = proxies ?pm' \<and>
            currentIndex (snd (getNextProxy_loop ?pm' (attempts + 1))) < length (proxies ?pm')"
        using "1.IH"[OF True refl refl] failed in_range by simp
      then show ?thesis
        using True failed by (subst (1 2) getNextProxy_loop.simps) (simp add: Let_def)
    qed
  qed
qed

lemma getNextProxy_keeps_index_in_range:
  "currentIndex pm < length (proxies pm) \<Longrightarrow>
   proxies (snd (getNextProxy pm)) = proxies pm \<and>
   currentIndex (snd (getNextProxy pm)) < length (proxies pm)"
  using getNextProxy_loop_keeps_index_in_range[of pm 0] by (simp add: getNextProxy_def)

lemma markProxyAsFailed_marks:
  "p \<noteq> [] \<Longrightarrow> p \<in> failedProxies (markProxyAsFailed pm (Some p))"
  by (simp add: markProxyAsFailed_def)

text \<open>
  \<open>initialize\<close> replaces or extends the pool, but writes neither \<open>currentIndex\<close> nor
  \<open>failedProxies\<close>: a later run of the same process starts with the index and the
  tombstones the earlier run left, over a pool that may have become shorter.
\<close>

lemma filterWorkingProxies_keeps_rotation_state:
  "currentIndex (filterWorkingProxies test st pm) = currentIndex pm \<and>
   failedProxies (filterWorkingProxies test st pm) = failedProxies pm"
  by (simp add: filterWorkingProxies_def Let_def)

lemma initialize_keeps_rotation_state:
  "currentIndex (initialize pf st pm) = currentIndex pm \<and>
   failedProxies (initialize pf st pm) = failedProxies pm"
  by (simp add: initialize_def fetchFreeProxies_def Let_def filterWorkingProxies_keeps_rotation_state)

lemma health_loop_sublist:
  "subseq (health_loop maxTests test ps checked) ps"
  by (induction ps arbitrary: checked) auto

lemma filterWorkingProxies_shrinks:
  "length (proxies (filterWorkingProxies test st pm)) \<le> length (proxies pm)"
  using health_loop_sublist[of "maxProxyTests st" test "proxies pm" 0]
  by (auto simp: filterWorkingProxies_def Let_def dest: list_emb_length)

text \<open>
  With the index inside the pool and every entry tombstoned, the loop visits every entry
  once, the tombstones are cleared and the first entry is returned; nothing else of the
  manager changes.
\<close>

lemma getNextProxy_resets_in_range:
  assumes "useProxy pm" and "proxies pm \<noteq> []"
    and "currentIndex pm < length (proxies pm)"
    and "set (proxies pm) \<subseteq> failedProxies pm"
  shows "getNextProxy pm = (Some (hd (proxies pm)), pm\<lparr>failedProxies := {}\<rparr>)"
proof -
  have "getNextProxy pm = getNextProxy_loop pm 0"
    using assms(1,2) by (simp add: getNextProxy_def)
  also have "\<dots> = (Some (hd (proxies pm)),
      pm\<lparr>currentIndex := (currentIndex pm + (length (proxies pm) - 0)) mod length (proxies pm),
         failedProxies := {}\<rparr>)"
    using assms(3,4) by (intro getNextProxy_loop_all_failed) simp_all
  also have "(currentIndex pm + (length (proxies pm) - 0)) mod length (proxies pm) = currentIndex pm"
    using assms(3) by simp
  finally show ?thesis by simp
qed

text \<open>
  With the index outside the pool, \<open>this.proxies[this.currentIndex]\<close> is \<open>undefined\<close>,
  which is in no set of tombstones: the first round of the loop returns it, whatever
  the tombstones are, and only the index changes.
\<close>

lemma getNextProxy_stale_index:
  assumes "useProxy pm" and "proxies pm \<noteq> []"
    and "length (proxies pm) \<le> currentIndex pm"
  shows "getNextProxy pm =
           (None, pm\<lparr>currentIndex := (currentIndex pm + 1) mod length (proxies pm)\<rparr>)"
proof -
  have "getNextProxy pm = getNextProxy_loop pm 0"
    using assms(1,2) by (simp add: getNextProxy_def)
  also have "\<dots> = (None, pm\<lparr>currentIndex := (currentIndex pm + 1) mod length (proxies pm)\<rparr>)"
    using assms(2,3) by (subst getNextProxy_loop.simps) (simp add: at_index_def Let_def)
  finally show ?thesis .
qed

text \<open>
  Claim C7.  In an enabled manager with a non-empty pool in which every entry is
  tombstoned, \<open>getNextProxy\<close> clears the tombstones and returns the first entry of the
  pool exactly when \<open>currentIndex\<close> is inside the pool.  When it is not, which is the
  state of a manager whose pool \<open>initialize\<close> has made shorter than the index left by
  an earlier run, the call returns \<open>undefined\<close> and every tombstone stays: the failed
  set is not empty afterwards.
\<close>

theorem getNextProxy_when_all_failed:
  assumes "useProxy pm" and "proxies pm \<noteq> []"
    and "set (proxies pm) \<subseteq> failedProxies pm"
  shows "getNextProxy pm =
           (if currentIndex pm < length (proxies pm)
            then (Some (hd (proxies pm)), pm\<lparr>failedProxies := {}\<rparr>)
            else (None, pm\<lparr>currentIndex := (currentIndex pm + 1) mod length (proxies pm)\<rparr>)) \<and>
         (failedProxies (snd (getNextProxy pm)) = {}) = (currentIndex pm < length (proxies pm))"
proof (cases "currentIndex pm < length (proxies pm)")
  case True
  then show ?thesis
    using getNextProxy_resets_in_range[OF assms(1,2) True assms(3)] by simp
next
  case False
  then have stale: "length (proxies pm) \<le> currentIndex pm" by simp
  have "failedProxies pm \<noteq> {}" using assms(2,3) by (cases "proxies pm") auto
  then show ?thesis
    using getNextProxy_stale_index[OF assms(1,2) stale] False by simp
qed

text \<open>
  The theorem at the manager of the second run of the server process with three
  configured proxies, and at a pool of three whose index is inside it.
\<close>

theorem getNextProxy_when_all_failed_witness:
  "second_run =
     \<lparr>proxies = [''http://10.0.0.1:8080'', ''http://10.0.0.2:8080''], currentIndex = 2,
      failedProxies = {''http://10.0.0.1:8080'', ''http://10.0.0.2:8080'', ''http://10.0.0.3:8080''},
      useProxy = True\<rparr> \<and>
   useProxy second_run \<and> proxies second_run \<noteq> [] \<and>
   set (proxies second_run) \<subseteq> failedProxies second_run \<and>
   getNextProxy second_run = (None, second_run\<lparr>currentIndex := 1\<rparr>) \<and>
   failedProxies (snd (getNextProxy second_run)) \<noteq> {} \<and>
   useProxy (markAll pool3) \<and> proxies (markAll pool3) \<noteq> [] \<and>
   set (proxies (markAll pool3)) \<subseteq> failedProxies (markAll pool3) \<and>
   getNextProxy (markAll pool3) = (Some ''http://10.0.0.1:8080'', pool3)"
proof -
  have s: "second_run =
     \<lparr>proxies = [''http://10.0.0.1:8080'', ''http://10.0.0.2:8080''], currentIndex = 2,
      failedProxies = {''http://10.0.0.1:8080'', ''http://10.0.0.2:8080'', ''http://10.0.0.3:8080''},
      useProxy = True\<rparr>"
    by code_simp
  have g1: "useProxy second_run" and g2: "proxies second_run \<noteq> []"
    and g3: "set (proxies second_run) \<subseteq> failedProxies second_run"
    and g4: "\<not> currentIndex second_run < length (proxies second_run)"
    by (simp_all add: s)
  have g5: "(currentIndex second_run + 1) mod length (proxies second_run) = 1"
    by code_simp
  note stale = getNextProxy_when_all_failed [OF g1 g2 g3]
  have r1: "getNextProxy second_run = (None, second_run\<lparr>currentIndex := 1\<rparr>)"
    using stale g4 g5 by simp
  have r2: "failedProxies (snd (getNextProxy second_run)) \<noteq> {}"
    using stale g4 by blast
  have m: "markAll pool3 = pool3\<lparr>failedProxies :=
             {''http://10.0.0.1:8080'', ''http://10.0.0.2:8080'', ''http://10.0.0.3:8080''}\<rparr>"
    by (simp add: markAll_def pool3_def markProxyAsFailed_def insert_commute)
  have h1: "useProxy (markAll pool3)" and h2: "proxies (markAll pool3) \<noteq> []"
    and h3: "set (proxies (markAll pool3)) \<subseteq> failedProxies (markAll pool3)"
    and h4: "currentIndex (markAll pool3) < length (proxies (markAll pool3))"
    by (simp_all add: m) (simp_all add: pool3_def)
  have "hd (proxies (markAll pool3)) = ''http://10.0.0.1:8080''"
    by (simp add: m) (simp add: pool3_def)
  moreover have "(markAll pool3)\<lparr>failedProxies := {}\<rparr> = pool3"
    by (simp add: m) (simp add: pool3_def)
  ultimately have r3: "getNextProxy (markAll pool3) = (Some ''http://10.0.0.1:8080'', pool3)"
    using getNextProxy_when_all_failed [OF h1 h2 h3] h4 by simp
  show ?thesis using s g1 g2 g3 r1 r2 h1 h2 h3 r3 by blast
qed

section \<open>Fetch with retry\<close>

lemma axios_get_Inr_iff:
  "axios_get out = Inr body \<longleftrightarrow> (\<exists>status. out = Response status body \<and> 200 \<le> status \<and> status < 400)"
  by (cases out) (auto simp: axios_get_def validateStatus_def)

lemma fetch_loop_all_fail:
  "(\<forall>i. a \<le> i \<and> i \<le> n \<longrightarrow> isl (axios_get (net i))) \<Longrightarrow>
   fst (fetch_loop net url n a lastErr pm) =
     Inl (failure_message url (if a \<le> n then Some (projl (axios_get (net n))) else lastErr))"
proof (induction net url n a lastErr pm rule: fetch_loop.induct)
  case (1 net url retries attempt lastErr pm)
  show ?case
  proof (cases "attempt \<le> retries")
    case False
    then show ?thesis by (subst fetch_loop.simps) simp
  next
    case True
    obtain currentProxy pm1 where g: "getNextProxy pm = (currentProxy, pm1)"
      by (cases "getNextProxy pm")
    from True "1.prems" obtain err where e: "axios_get (net attempt) = Inl err"
      by (cases "axios_get (net attempt)") auto
    let ?pm2 = "if truthy currentProxy \<and> (err_code err = ''ECONNREFUSED'' \<or> err_code err = ''ETIMEDOUT'')
                then markProxyAsFailed pm1 currentProxy else pm1"
    have step: "fetch_loop net url retries attempt lastErr pm
                 = fetch_loop net url retries (attempt + 1) (Some err) ?pm2"
      by (subst fetch_loop.simps) (simp add: True g e)
    have ih: "fst (fetch_loop net url retries (attempt + 1) (Some err) ?pm2) =
       Inl (failure_message url (if attempt + 1 \<le> retries then Some (projl (axios_get (net retries))) else Some err))"
      using "1.IH"[OF True g[symmetric] e] "1.prems" by simp
    show ?thesis
    proof (cases "attempt + 1 \<le> retries")
      case True
      then show ?thesis using step ih \<open>attempt \<le> retries\<close> by simp
    next
      case False
      then have "attempt = retries" using True by simp
      then show ?thesis using step ih False e by simp
    qed
  qed
qed

lemma fetch_loop_first_success:
  "a \<le> k \<Longrightarrow> k \<le> n \<Longrightarrow> axios_get (net k) = Inr body \<Longrightarrow>
   (\<forall>i. a \<le> i \<and> i < k \<longrightarrow> isl (axios_get (net i))) \<Longrightarrow>
   fst (fetch_loop net url n a lastErr pm) = Inr body"
proof (induction net url n a lastErr pm rule: fetch_loop.induct)
  case (1 net url retries attempt lastErr pm)
  have le: "attempt \<le> retries" using "1.prems" by simp
  obtain currentProxy pm1 where g: "getNextProxy pm = (currentProxy, pm1)"
    by (cases "getNextProxy pm")
  show ?case
  proof (cases "attempt = k")
    case True
    then show ?thesis using "1.prems" le g by (subst fetch_loop.simps) simp
  next
    case False
    then have lt: "attempt < k" using "1.prems" by simp
    then obtain err where e: "axios_get (net attempt) = Inl err"
      using "1.prems" by (cases "axios_get (net attempt)") auto
    have "fst (fetch_loop net url retries (attempt + 1) (Some err)
             (if truthy currentProxy \<and> (err_code err = ''ECONNREFUSED'' \<or> err_code err = ''ETIMEDOUT'')
              then markProxyAsFailed pm1 currentProxy else pm1)) = Inr body"
      using "1.IH"[OF le g[symmetric] e] "1.prems" lt by simp
    then show ?thesis
      by (subst fetch_loop.simps) (simp add: le g e)
  qed
qed

lemma fetch_loop_Inl_all_fail:
  "fst (fetch_loop net url n a lastErr pm) = Inl msg \<Longrightarrow> a \<le> i \<Longrightarrow> i \<le> n \<Longrightarrow> isl (axios_get (net i))"
proof (rule ccontr)
  assume r: "fst (fetch_loop net url n a lastErr pm) = Inl msg" and ai: "a \<le> i" and "i \<le> n"
    and "\<not> isl (axios_get (net i))"
  then have ex: "\<exists>j. a \<le> j \<and> j \<le> n \<and> \<not> isl (axios_get (net j))" by blast
  define k where "k = (LEAST j. a \<le> j \<and> j \<le> n \<and> \<not> isl (axios_get (net j)))"
  have k: "a \<le> k \<and> k \<le> n \<and> \<not> isl (axios_get (net k))"
    unfolding k_def using ex by (rule LeastI_ex)
  have least: "\<And>j. a \<le> j \<and> j < k \<Longrightarrow> isl (axios_get (net j))"
  proof (rule ccontr)
    fix j assume j: "a \<le> j \<and> j < k" and "\<not> isl (axios_get (net j))"
    then have "a \<le> j \<and> j \<le> n \<and> \<not> isl (axios_get (net j))" using k by simp
    then have "k \<le> j" unfolding k_def by (rule Least_le)
    with j show False by simp
  qed
  obtain body where "axios_get (net k) = Inr body" using k by (cases "axios_get (net k)") auto
  then have "fst (fetch_loop net url n a lastErr pm) = Inr body"
    using fetch_loop_first_success[of a k n net body url lastErr pm] k least by blast
  with r show False by simp
qed

text \<open>
  Claim C8.  An attempt of \<open>fetchHtmlWithRetry\<close> succeeds exactly for a response whose
  status is in [200,400).  The operation throws if and only if all of its attempts
  fail; the thrown message is \<open>failure_message\<close> of the error of the last attempt,
  which carries that error's message; and when an attempt succeeds after failures the
  body of that response is returned.
\<close>

theorem fetchHtmlWithRetry_status_and_failure:
  "(validateStatus status \<longleftrightarrow> 200 \<le> status \<and> status < 400) \<and>
   (axios_get out = Inr body \<longleftrightarrow> (\<exists>st. out = Response st body \<and> 200 \<le> st \<and> st < 400)) \<and>
   ((\<exists>msg. fst (fetchHtmlWithRetry net url retries pm) = Inl msg)
      \<longleftrightarrow> (\<forall>i. 1 \<le> i \<and> i \<le> retries \<longrightarrow> isl (axios_get (net i)))) \<and>
   ((\<forall>i. 1 \<le> i \<and> i \<le> retries \<longrightarrow> isl (axios_get (net i))) \<longrightarrow>
      fst (fetchHtmlWithRetry net url retries pm) =
        Inl (failure_message url (if retries = 0 then None else Some (projl (axios_get (net retries)))))) \<and>
   (err_message e \<noteq> [] \<longrightarrow> failure_message url (Some e) = ''Failed to fetch '' @ url @ '': '' @ err_message e) \<and>
   (1 \<le> k \<and> k \<le> retries \<and> axios_get (net k) = Inr body \<and>
      (\<forall>i. 1 \<le> i \<and> i < k \<longrightarrow> isl (axios_get (net i))) \<longrightarrow>
      fst (fetchHtmlWithRetry net url retries pm) = Inr body)"
proof (intro conjI)
  show "validateStatus status \<longleftrightarrow> 200 \<le> status \<and> status < 400"
    by (simp add: validateStatus_def)
  show "axios_get out = Inr body \<longleftrightarrow> (\<exists>st. out = Response st body \<and> 200 \<le> st \<and> st < 400)"
    by (rule axios_get_Inr_iff)
  have allfail: "(\<forall>i. 1 \<le> i \<and> i \<le> retries \<longrightarrow> isl (axios_get (net i))) \<Longrightarrow>
      fst (fetchHtmlWithRetry net url retries pm) =
        Inl (failure_message url (if retries = 0 then None else Some (projl (axios_get (net retries)))))"
    using fetch_loop_all_fail[of 1 retries net url None pm]
    by (cases "retries = 0") (simp_all add: fetchHtmlWithRetry_def)
  show "(\<exists>msg. fst (fetchHtmlWithRetry net url retries pm) = Inl msg)
      \<longleftrightarrow> (\<forall>i. 1 \<le> i \<and> i \<le> retries \<longrightarrow> isl (axios_get (net i)))"
    using allfail fetch_loop_Inl_all_fail[of net url retries 1 None pm]
    by (auto simp: fetchHtmlWithRetry_def)
  show "(\<forall>i. 1 \<le> i \<and> i \<le> retries \<longrightarrow> isl (axios_get (net i))) \<longrightarrow>
      fst (fetchHtmlWithRetry net url retries pm) =
        Inl (failure_message url (if retries = 0 then None else Some (projl (axios_get (net retries)))))"
    using allfail by blast
  show "err_message e \<noteq> [] \<longrightarrow> failure_message url (Some e) = ''Failed to fetch '' @ url @ '': '' @ err_message e"
    by (simp add: failure_message_def)
  show "1 \<le> k \<and> k \<le> retries \<and> axios_get (net k) = Inr body \<and>
      (\<forall>i. 1 \<le> i \<and> i < k \<longrightarrow> isl (axios_get (net i))) \<longrightarrow>
      fst (fetchHtmlWithRetry net url retries pm) = Inr body"
    using fetch_loop_first_success[of 1 k retries net body url None pm]
    by (auto simp: fetchHtmlWithRetry_def)
qed

theorem fetchHtmlWithRetry_status_and_failure_witness:
  "isl (axios_get (net_down 1)) \<and> isl (axios_get (net_down 2)) \<and> isl (axios_get (net_down 3)) \<and>
   fst (fetchHtmlWithRetry net_down ''https://toonstream.one/x'' 3 direct) =
     Inl ''Failed to fetch https://toonstream.one/x: timeout of 30000ms exceeded'' \<and>
   (1::nat) \<le> 3 \<and> (3::nat) \<le> 3 \<and> axios_get (net_flaky 3) = Inr ''<html></html>'' \<and>
   isl (axios_get (net_flaky 1)) \<and> isl (axios_get (net_flaky 2)) \<and>
   fst (fetchHtmlWithRetry net_flaky ''https://toonstream.one/x'' 3 direct) = Inr ''<html></html>''"
proof -
  have down: "\<forall>i. 1 \<le> i \<and> i \<le> 3 \<longrightarrow> isl (axios_get (net_down i))"
    by (simp add: net_down_def axios_get_def)
  have ok3: "axios_get (net_flaky 3) = Inr ''<html></html>''"
    by (simp add: net_flaky_def axios_get_def validateStatus_def)
  have before: "\<forall>i. 1 \<le> i \<and> i < 3 \<longrightarrow> isl (axios_get (net_flaky i))"
    by (simp add: net_flaky_def axios_get_def validateStatus_def)
  note t1 = fetchHtmlWithRetry_status_and_failure
    [of _ _ _ net_down "''https://toonstream.one/x''" 3 direct _ 3]
  note t2 = fetchHtmlWithRetry_status_and_failure
    [of _ _ "''<html></html>''" net_flaky "''https://toonstream.one/x''" 3 direct _ 3]
  have "fst (fetchHtmlWithRetry net_down ''https://toonstream.one/x'' 3 direct) =
     Inl (failure_message ''https://toonstream.one/x'' (Some (projl (axios_get (net_down 3)))))"
    using t1 down by simp
  then have r1: "fst (fetchHtmlWithRetry net_down ''https://toonstream.one/x'' 3 direct) =
     Inl ''Failed to fetch https://toonstream.one/x: timeout of 30000ms exceeded''"
    by (simp add: failure_message_def net_down_def axios_get_def)
  have r2: "fst (fetchHtmlWithRetry net_flaky ''https://toonstream.one/x'' 3 direct) = Inr ''<html></html>''"
    using t2 ok3 before by simp
  show ?thesis using down ok3 before r1 r2 by simp
qed

section \<open>Resolution: termination and depth bound\<close>

lemma resolve_visited:
  "url \<noteq> [] \<Longrightarrow> url \<in> visited \<Longrightarrow> resolve cfg w pm visited url depth = (Some url, visited, [], pm)"
  by (subst resolve.simps) simp

lemma resolve_cutoff:
  "url \<noteq> [] \<Longrightarrow> depth > MAX_DEPTH cfg \<Longrightarrow> resolve cfg w pm visited url depth = (Some url, visited, [], pm)"
  by (subst resolve.simps) simp

lemma resolve_fetch_failed:
  "url \<noteq> [] \<Longrightarrow> url \<notin> visited \<Longrightarrow> depth \<le> MAX_DEPTH cfg \<Longrightarrow>
   fetchHtmlWithRetry (network w url) url (maxRetries cfg) pm = (Inl msg, pm1) \<Longrightarrow>
   resolve cfg w pm visited url depth = (None, insert url visited, [url], pm1)"
  by (subst resolve.simps) simp

lemma resolve_Return:
  "url \<noteq> [] \<Longrightarrow> url \<notin> visited \<Longrightarrow> depth \<le> MAX_DEPTH cfg \<Longrightarrow>
   fetchHtmlWithRetry (network w url) url (maxRetries cfg) pm = (Inr html, pm1) \<Longrightarrow>
   decide cfg w (insert url visited) url depth (parse w html url) = Return r \<Longrightarrow>
   resolve cfg w pm visited url depth = (r, insert url visited, [url], pm1)"
  by (subst resolve.simps) simp

lemma resolve_Follow:
  "url \<noteq> [] \<Longrightarrow> url \<notin> visited \<Longrightarrow> depth \<le> MAX_DEPTH cfg \<Longrightarrow>
   fetchHtmlWithRetry (network w url) url (maxRetries cfg) pm = (Inr html, pm1) \<Longrightarrow>
   decide cfg w (insert url visited) url depth (parse w html url) = Follow nxt \<Longrightarrow>
   resolve cfg w pm visited url depth = via url (resolve cfg w pm1 (insert url visited) nxt (depth + 1))"
  by (subst resolve.simps) (simp add: via_def)

lemma resolve_fetch_bound:
  "length (fetched_of (resolve cfg w pm visited url depth)) \<le> MAX_DEPTH cfg + 1 - depth"
proof (induction cfg w pm visited url depth rule: resolve.induct)
  case (1 cfg w pm visited url depth)
  show ?case
  proof (cases "url = [] \<or> url \<in> visited \<or> depth > MAX_DEPTH cfg")
    case True
    then show ?thesis by (subst resolve.simps) (auto simp: fetched_of_def)
  next
    case False
    then have g: "url \<noteq> []" "url \<notin> visited" "depth \<le> MAX_DEPTH cfg" by auto
    obtain r pm1 where f: "fetchHtmlWithRetry (network w url) url (maxRetries cfg) pm = (r, pm1)"
      by (cases "fetchHtmlWithRetry (network w url) url (maxRetries cfg) pm")
    show ?thesis
    proof (cases r)
      case (Inl msg)
      then show ?thesis using resolve_fetch_failed[OF g] f g by (simp add: fetched_of_def)
    next
      case (Inr html)
      show ?thesis
      proof (cases "decide cfg w (insert url visited) url depth (parse w html url)")
        case (Return res)
        then show ?thesis using resolve_Return[OF g] f Inr g by (simp add: fetched_of_def)
      next
        case (Follow nxt)
        have lt: "depth < MAX_DEPTH cfg" using Follow by (rule decide_Follow_depth)
        have ih: "length (fetched_of (resolve cfg w pm1 (insert url visited) nxt (depth + 1)))
                    \<le> MAX_DEPTH cfg + 1 - (depth + 1)"
          using "1.IH" g f Inr Follow by simp
        have "resolve cfg w pm visited url depth = via url (resolve cfg w pm1 (insert url visited) nxt (depth + 1))"
          using resolve_Follow[OF g] f Inr Follow by simp
        then show ?thesis using ih lt
          by (cases "resolve cfg w pm1 (insert url visited) nxt (depth + 1)") (simp add: fetched_of_def via_def)
      qed
    qed
  qed
qed

text \<open>
  Claim C1.  \<open>resolve\<close> is a total function: it is defined by recursion on
  \<open>MAX_DEPTH + 1 - depth\<close>, for every world, so also for cyclic document graphs.  A
  URL that is already in the visited set is returned unchanged, and so is the URL of a
  call with \<open>depth > MAX_DEPTH\<close>, both without a fetch.  A call at \<open>depth\<close> hands at
  most \<open>MAX_DEPTH + 1 - depth\<close> URLs to the fetch layer, hence a top-level resolution at
  most \<open>MAX_DEPTH + 1\<close>, and \<open>MAX_DEPTH\<close> is the configured embed depth plus 2.
\<close>

theorem resolve_terminates_within_depth:
  "MAX_DEPTH cfg = embedMaxDepth cfg + 2 \<and>
   (url \<noteq> [] \<longrightarrow> url \<in> visited \<longrightarrow> resolve cfg w pm visited url depth = (Some url, visited, [], pm)) \<and>
   (url \<noteq> [] \<longrightarrow> depth > MAX_DEPTH cfg \<longrightarrow> resolve cfg w pm visited url depth = (Some url, visited, [], pm)) \<and>
   length (fetched_of (resolve cfg w pm visited url depth)) \<le> MAX_DEPTH cfg + 1 - depth \<and>
   length (fetched_of (extractRealVideoUrl cfg w pm url)) \<le> MAX_DEPTH cfg + 1"
  using resolve_visited[of url visited cfg w pm depth] resolve_cutoff[of url cfg depth w pm visited]
    resolve_fetch_bound[of cfg w pm visited url depth] resolve_fetch_bound[of cfg w pm "{}" url 0]
  by (simp add: MAX_DEPTH_def extractRealVideoUrl_def)

theorem resolve_terminates_within_depth_witness:
  "''https://toonstream.one/?trembed=0'' \<noteq> [] \<and>
   ''https://toonstream.one/?trembed=0'' \<in> {''https://toonstream.one/?trembed=0''} \<and>
   9 > MAX_DEPTH cfg0 \<and>
   resolve cfg0 cyclic_site direct {''https://toonstream.one/?trembed=0''} ''https://toonstream.one/?trembed=0'' 9 =
     (Some ''https://toonstream.one/?trembed=0'', {''https://toonstream.one/?trembed=0''}, [], direct) \<and>
   length (fetched_of (extractRealVideoUrl cfg0 cyclic_site direct ''https://toonstream.one/?trembed=0'')) \<le> 6 \<and>
   extractRealVideoUrl cfg0 cyclic_site direct ''https://toonstream.one/?trembed=0'' =
     (Some ''https://toonstream.one/?trembed=1'',
      {''https://toonstream.one/?trembed=1'', ''https://toonstream.one/?trembed=0''},
      [''https://toonstream.one/?trembed=0'', ''https://toonstream.one/?trembed=1''], direct)"
proof -
  have c: "extractRealVideoUrl cfg0 cyclic_site direct ''https://toonstream.one/?trembed=0'' =
     (Some ''https://toonstream.one/?trembed=1'',
      {''https://toonstream.one/?trembed=1'', ''https://toonstream.one/?trembed=0''},
      [''https://toonstream.one/?trembed=0'', ''https://toonstream.one/?trembed=1''], direct)"
    by code_simp
  have d: "9 > MAX_DEPTH cfg0" by (simp add: MAX_DEPTH_def cfg0_def)
  have m: "MAX_DEPTH cfg0 + 1 = 6" by (simp add: MAX_DEPTH_def cfg0_def)
  note t = resolve_terminates_within_depth
    [where cfg = cfg0 and w = cyclic_site and pm = direct
       and visited = "{''https://toonstream.one/?trembed=0''}"
       and url = "''https://toonstream.one/?trembed=0''" and depth = 9]
  have "length (fetched_of (extractRealVideoUrl cfg0 cyclic_site direct ''https://toonstream.one/?trembed=0'')) \<le> 6"
    using t m by simp
  moreover have "resolve cfg0 cyclic_site direct {''https://toonstream.one/?trembed=0''} ''https://toonstream.one/?trembed=0'' 9 =
     (Some ''https://toonstream.one/?trembed=0'', {''https://toonstream.one/?trembed=0''}, [], direct)"
    using t d by simp
  ultimately show ?thesis using c d by simp
qed

text \<open>
  The bound is attained: on a chain of six same-site redirection pages a top-level
  resolution fetches all six, which is \<open>MAX_DEPTH + 1\<close> for the default embed depth 3.
\<close>

lemma fetch_bound_is_attained:
  "length (fetched_of (extractRealVideoUrl cfg0 deep_site direct ''https://toonstream.one/?trembed=0'')) = 6 \<and>
   MAX_DEPTH cfg0 + 1 = 6"
  by code_simp

lemma fetchHtmlWithRetry_all_fail:
  assumes "\<forall>i. 1 \<le> i \<and> i \<le> retries \<longrightarrow> isl (axios_get (net i))"
  shows "\<exists>msg pm1. fetchHtmlWithRetry net url retries pm = (Inl msg, pm1)"
proof -
  have "fst (fetch_loop net url retries 1 None pm) =
          Inl (failure_message url (if 1 \<le> retries then Some (projl (axios_get (net retries))) else None))"
    using assms by (rule fetch_loop_all_fail)
  then show ?thesis
    by (cases "fetch_loop net url retries 1 None pm") (auto simp: fetchHtmlWithRetry_def)
qed

text \<open>
  Claim C4.  When every attempt to fetch the document of a node fails, \<open>resolve\<close>
  returns \<open>null\<close> from that node, after handing just this URL to the fetch layer.  The
  depth cutoff is different: a call beyond \<open>MAX_DEPTH\<close> returns its URL.
\<close>

theorem resolve_fetch_break_returns_null:
  assumes "url \<noteq> []" and "url \<notin> visited" and "depth \<le> MAX_DEPTH cfg"
    and "\<forall>i. 1 \<le> i \<and> i \<le> maxRetries cfg \<longrightarrow> isl (axios_get (network w url i))"
  shows "result_of (resolve cfg w pm visited url depth) = None \<and>
         fetched_of (resolve cfg w pm visited url depth) = [url] \<and>
         result_of (resolve cfg w pm visited url (MAX_DEPTH cfg + 1)) = Some url"
proof -
  obtain msg pm1 where "fetchHtmlWithRetry (network w url) url (maxRetries cfg) pm = (Inl msg, pm1)"
    using fetchHtmlWithRetry_all_fail[OF assms(4)] by blast
  then have "resolve cfg w pm visited url depth = (None, insert url visited, [url], pm1)"
    using assms(1-3) by (rule resolve_fetch_failed[rotated 3])
  moreover have "resolve cfg w pm visited url (MAX_DEPTH cfg + 1) = (Some url, visited, [], pm)"
    using assms(1) by (intro resolve_cutoff) simp_all
  ultimately show ?thesis by (simp add: result_of_def fetched_of_def)
qed

theorem resolve_fetch_break_returns_null_witness:
  "''about:blank'' \<noteq> [] \<and> ''about:blank'' \<notin> {''https://toonstream.one/?trembed=0''} \<and>
   1 \<le> MAX_DEPTH cfg0 \<and>
   maxRetries cfg0 = 3 \<and>
   isl (axios_get (network blank_site ''about:blank'' 1)) \<and>
   isl (axios_get (network blank_site ''about:blank'' 2)) \<and>
   isl (axios_get (network blank_site ''about:blank'' 3)) \<and>
   result_of (resolve cfg0 blank_site direct {''https://toonstream.one/?trembed=0''} ''about:blank'' 1) = None \<and>
   result_of (resolve cfg0 blank_site direct {''https://toonstream.one/?trembed=0''} ''about:blank'' 6) = Some ''about:blank''"
proof -
  have h1: "''about:blank'' \<noteq> []" and h2: "''about:blank'' \<notin> {''https://toonstream.one/?trembed=0''}"
    by simp_all
  have h3: "1 \<le> MAX_DEPTH cfg0" and m: "MAX_DEPTH cfg0 + 1 = 6" by (simp_all add: MAX_DEPTH_def cfg0_def)
  have h4: "\<forall>i. 1 \<le> i \<and> i \<le> maxRetries cfg0 \<longrightarrow> isl (axios_get (network blank_site ''about:blank'' i))"
    by (simp add: blank_site_def site_def hop_def axios_get_def validateStatus_def)
  have h5: "maxRetries cfg0 = 3" by (simp add: cfg0_def)
  from resolve_fetch_break_returns_null [OF h1 h2 h3 h4, of direct]
  show ?thesis using h1 h2 h3 h4 h5 m by simp
qed

section \<open>Resolution: direct media and iframes\<close>

lemma decide_direct:
  "pickDirectVideo (videoSrcs doc) = Some v \<Longrightarrow> isVideoUrl v \<Longrightarrow>
   decide cfg w visited url depth doc = Return (Some v)"
  by (auto simp: decide_def isVideoUrl_def)

text \<open>
  Claim C2, amended.  When the first media element with a usable non-blob source has a
  source that the media classifier \<open>isVideoUrl\<close> accepts, \<open>resolve\<close> returns that source
  and hands no URL but its own to the fetch layer, whatever iframes the document has.
\<close>

theorem resolve_prefers_direct_video:
  assumes "url \<noteq> []" and "url \<notin> visited" and "depth \<le> MAX_DEPTH cfg"
    and "fetchHtmlWithRetry (network w url) url (maxRetries cfg) pm = (Inr html, pm1)"
    and "pickDirectVideo (videoSrcs (parse w html url)) = Some v"
    and "isVideoUrl v"
  shows "resolve cfg w pm visited url depth = (Some v, insert url visited, [url], pm1) \<and>
         result_of (resolve cfg w pm visited url depth) = Some v \<and>
         fetched_of (resolve cfg w pm visited url depth) = [url]"
proof -
  have "decide cfg w (insert url visited) url depth (parse w html url) = Return (Some v)"
    using assms(5,6) by (rule decide_direct)
  then have "resolve cfg w pm visited url depth = (Some v, insert url visited, [url], pm1)"
    using assms(1-4) by (intro resolve_Return) simp_all
  then show ?thesis by (simp add: result_of_def fetched_of_def)
qed

lemma fetch_media_site:
  "fetchHtmlWithRetry (network media_site ''https://toonstream.one/?trembed=0'')
      ''https://toonstream.one/?trembed=0'' (maxRetries cfg0) direct = (Inr ''<html>'', direct)"
  by code_simp

theorem resolve_prefers_direct_video_witness:
  "''https://toonstream.one/?trembed=0'' \<noteq> [] \<and> ''https://toonstream.one/?trembed=0'' \<notin> {} \<and>
   0 \<le> MAX_DEPTH cfg0 \<and>
   fetchHtmlWithRetry (network media_site ''https://toonstream.one/?trembed=0'')
      ''https://toonstream.one/?trembed=0'' (maxRetries cfg0) direct = (Inr ''<html>'', direct) \<and>
   pickDirectVideo (videoSrcs (parse media_site ''<html>'' ''https://toonstream.one/?trembed=0''))
     = Some ''https://cdn.example.com/ep1.mp4'' \<and>
   iframeSrcs (parse media_site ''<html>'' ''https://toonstream.one/?trembed=0'')
     = [Some ''https://toonstream.one/?trembed=1''] \<and>
   isVideoUrl ''https://cdn.example.com/ep1.mp4'' \<and>
   resolve cfg0 media_site direct {} ''https://toonstream.one/?trembed=0'' 0 =
     (Some ''https://cdn.example.com/ep1.mp4'', {''https://toonstream.one/?trembed=0''},
      [''https://toonstream.one/?trembed=0''], direct)"
proof -
  have h1: "''https://toonstream.one/?trembed=0'' \<noteq> []"
    and h2: "''https://toonstream.one/?trembed=0'' \<notin> {}"
    and h3: "0 \<le> MAX_DEPTH cfg0" by simp_all
  have h5: "pickDirectVideo (videoSrcs (parse media_site ''<html>'' ''https://toonstream.one/?trembed=0''))
     = Some ''https://cdn.example.com/ep1.mp4''" by code_simp
  have h6: "isVideoUrl ''https://cdn.example.com/ep1.mp4''" by code_simp
  have i: "iframeSrcs (parse media_site ''<html>'' ''https://toonstream.one/?trembed=0'')
     = [Some ''https://toonstream.one/?trembed=1'']" by code_simp
  from resolve_prefers_direct_video [OF h1 h2 h3 fetch_media_site h5 h6]
  show ?thesis using h1 h3 fetch_media_site h5 h6 i by simp
qed

text \<open>
  As stated, for every document with a direct media element and an iframe, claim C2
  fails: the media source below carries no media signature, and the resolver follows the
  iframe instead.
\<close>

theorem direct_media_without_signature_counterexample:
  "pickDirectVideo (videoSrcs (parse mixed_site ''<html>'' ''https://toonstream.one/?trembed=0''))
     = Some ''https://cdn.example.com/clip'' \<and>
   iframeSrcs (parse mixed_site ''<html>'' ''https://toonstream.one/?trembed=0'')
     = [Some ''https://toonstream.one/?trembed=1''] \<and>
   result_of (resolve cfg0 mixed_site direct {} ''https://toonstream.one/?trembed=0'' 0)
     = Some ''https://toonstream.one/?trembed=1'' \<and>
   fetched_of (resolve cfg0 mixed_site direct {} ''https://toonstream.one/?trembed=0'' 0)
     = [''https://toonstream.one/?trembed=0'', ''https://toonstream.one/?trembed=1'']"
  by code_simp

lemma first_or_null_Some: "first_or_null xs = Some i \<Longrightarrow> i \<noteq> []"
  by (cases xs) (auto split: if_splits)

lemma decide_external_iframe:
  assumes "\<not> (\<exists>v. pickDirectVideo (videoSrcs doc) = Some v \<and> isVideoUrl v)"
    and "pickIframe visited url (iframeSrcs doc) = Some i"
    and "depth < MAX_DEPTH cfg"
    and "iframeNotToonstream i"
    and "startsWith i ''http'' \<or> isVideoPlayer i \<or> isVideoUrl i"
  shows "decide cfg w visited url depth doc = Return (Some i)"
proof -
  have ne: "i \<noteq> []" using assms(2) by (auto simp: pickIframe_def dest: first_or_null_Some)
  have "iframe_branch cfg w depth (Some i) = Some (Return (Some i))"
    using ne assms(3-5) by (auto simp: iframe_branch_def)
  then show ?thesis
    using assms(1,2) by (cases "pickDirectVideo (videoSrcs doc)") (auto simp: decide_def Let_def)
qed

lemma decide_marked_iframe:
  assumes "\<not> (\<exists>v. pickDirectVideo (videoSrcs doc) = Some v \<and> isVideoUrl v)"
    and "pickIframe visited url (iframeSrcs doc) = Some i"
    and "depth < MAX_DEPTH cfg"
    and "includes_str i ''trembed'' \<or> includes_str i ''trid='' \<or> includes_str i ''trtype='' \<or>
         (includes_str i ''toonstream.one'' \<and> isToonstreamUrl cfg w i)"
  shows "decide cfg w visited url depth doc = Follow i"
proof -
  have ne: "i \<noteq> []" using assms(2) by (auto simp: pickIframe_def dest: first_or_null_Some)
  have nt: "\<not> iframeNotToonstream i" using assms(4) by (auto simp: iframeNotToonstream_def)
  have nf: "needsFollow cfg w i" using assms(4) ne by (auto simp: needsFollow_def)
  have "iframe_branch cfg w depth (Some i) = Some (Follow i)"
    using ne nt nf assms(3) by (simp add: iframe_branch_def)
  then show ?thesis
    using assms(1,2) by (cases "pickDirectVideo (videoSrcs doc)") (auto simp: decide_def Let_def)
qed

text \<open>
  Claim C3, amended.  Below the depth limit and without a direct-media short-circuit,
  let \<open>i\<close> be the first not-yet-visited iframe.  If \<open>i\<close> contains none of
  \<open>toonstream.one\<close>, \<open>trembed\<close>, \<open>trid=\<close>, \<open>trtype=\<close> and starts with \<open>http\<close> (or matches a
  player signature or the media classifier), \<open>resolve\<close> returns \<open>i\<close> without fetching
  it.  If \<open>i\<close> carries a redirection marker, or contains \<open>toonstream.one\<close> and has the
  host of the source site, \<open>resolve\<close> returns what \<open>resolve(i, depth + 1)\<close> returns.
\<close>

theorem resolve_iframe_policy:
  assumes "url \<noteq> []" and "url \<notin> visited" and "depth < MAX_DEPTH cfg"
    and "fetchHtmlWithRetry (network w url) url (maxRetries cfg) pm = (Inr html, pm1)"
    and "\<not> (\<exists>v. pickDirectVideo (videoSrcs (parse w html url)) = Some v \<and> isVideoUrl v)"
    and "pickIframe (insert url visited) url (iframeSrcs (parse w html url)) = Some i"
  shows "(iframeNotToonstream i \<and> (startsWith i ''http'' \<or> isVideoPlayer i \<or> isVideoUrl i) \<longrightarrow>
            resolve cfg w pm visited url depth = (Some i, insert url visited, [url], pm1)) \<and>
         (includes_str i ''trembed'' \<or> includes_str i ''trid='' \<or> includes_str i ''trtype='' \<or>
            (includes_str i ''toonstream.one'' \<and> isToonstreamUrl cfg w i) \<longrightarrow>
            resolve cfg w pm visited url depth =
              via url (resolve cfg w pm1 (insert url visited) i (depth + 1)))"
proof (intro conjI impI)
  assume "iframeNotToonstream i \<and> (startsWith i ''http'' \<or> isVideoPlayer i \<or> isVideoUrl i)"
  then have "decide cfg w (insert url visited) url depth (parse w html url) = Return (Some i)"
    using assms(3,5,6) by (intro decide_external_iframe) simp_all
  then show "resolve cfg w pm visited url depth = (Some i, insert url visited, [url], pm1)"
    using assms(1-4) by (intro resolve_Return) simp_all
next
  assume "includes_str i ''trembed'' \<or> includes_str i ''trid='' \<or> includes_str i ''trtype='' \<or>
            (includes_str i ''toonstream.one'' \<and> isToonstreamUrl cfg w i)"
  then have "decide cfg w (insert url visited) url depth (parse w html url) = Follow i"
    using assms(3,5,6) by (intro decide_marked_iframe) simp_all
  then show "resolve cfg w pm visited url depth = via url (resolve cfg w pm1 (insert url visited) i (depth + 1))"
    using assms(1-4) by (intro resolve_Follow) simp_all
qed

lemma fetch_external_site:
  "fetchHtmlWithRetry (network external_site ''https://toonstream.one/?trembed=0'')
      ''https://toonstream.one/?trembed=0'' (maxRetries cfg0) direct = (Inr ''<html>'', direct)"
  "fetchHtmlWithRetry (network external_site ''https://toonstream.one/?trembed=7'')
      ''https://toonstream.one/?trembed=7'' (maxRetries cfg0) direct = (Inr ''<html>'', direct)"
  by code_simp+

theorem resolve_iframe_policy_witness:
  "0 < MAX_DEPTH cfg0 \<and>
   pickIframe {''https://toonstream.one/?trembed=0''} ''https://toonstream.one/?trembed=0''
      (iframeSrcs (parse external_site ''<html>'' ''https://toonstream.one/?trembed=0''))
     = Some ''https://cdn.example.com/v/1'' \<and>
   iframeNotToonstream ''https://cdn.example.com/v/1'' \<and>
   \<not> isVideoPlayer ''https://cdn.example.com/v/1'' \<and> \<not> isVideoUrl ''https://cdn.example.com/v/1'' \<and>
   resolve cfg0 external_site direct {} ''https://toonstream.one/?trembed=0'' 0 =
     (Some ''https://cdn.example.com/v/1'', {''https://toonstream.one/?trembed=0''},
      [''https://toonstream.one/?trembed=0''], direct) \<and>
   pickIframe {''https://toonstream.one/?trembed=7''} ''https://toonstream.one/?trembed=7''
      (iframeSrcs (parse external_site ''<html>'' ''https://toonstream.one/?trembed=7''))
     = Some ''https://toonstream.one/?trembed=0'' \<and>
   includes_str ''https://toonstream.one/?trembed=0'' ''trembed'' \<and>
   resolve cfg0 external_site direct {} ''https://toonstream.one/?trembed=7'' 0 =
     via ''https://toonstream.one/?trembed=7''
       (resolve cfg0 external_site direct {''https://toonstream.one/?trembed=7''}
          ''https://toonstream.one/?trembed=0'' 1)"
proof -
  have h3: "0 < MAX_DEPTH cfg0" by (simp add: MAX_DEPTH_def)
  have a5: "\<not> (\<exists>v. pickDirectVideo (videoSrcs (parse external_site ''<html>'' ''https://toonstream.one/?trembed=0'')) = Some v \<and> isVideoUrl v)"
    by (simp add: external_site_def site_def hop_def)
  have a6: "pickIframe (insert ''https://toonstream.one/?trembed=0'' {}) ''https://toonstream.one/?trembed=0''
      (iframeSrcs (parse external_site ''<html>'' ''https://toonstream.one/?trembed=0''))
     = Some ''https://cdn.example.com/v/1''" by code_simp
  have a7: "iframeNotToonstream ''https://cdn.example.com/v/1''" by code_simp
  have a8: "startsWith ''https://cdn.example.com/v/1'' ''http''" by code_simp
  have a9: "\<not> isVideoPlayer ''https://cdn.example.com/v/1''" "\<not> isVideoUrl ''https://cdn.example.com/v/1''"
    by code_simp+
  have b5: "\<not> (\<exists>v. pickDirectVideo (videoSrcs (parse external_site ''<html>'' ''https://toonstream.one/?trembed=7'')) = Some v \<and> isVideoUrl v)"
    by (simp add: external_site_def site_def hop_def)
  have b6: "pickIframe (insert ''https://toonstream.one/?trembed=7'' {}) ''https://toonstream.one/?trembed=7''
      (iframeSrcs (parse external_site ''<html>'' ''https://toonstream.one/?trembed=7''))
     = Some ''https://toonstream.one/?trembed=0''" by code_simp
  have b7: "includes_str ''https://toonstream.one/?trembed=0'' ''trembed''" by code_simp
  have r1: "resolve cfg0 external_site direct {} ''https://toonstream.one/?trembed=0'' 0 =
     (Some ''https://cdn.example.com/v/1'', insert ''https://toonstream.one/?trembed=0'' {},
      [''https://toonstream.one/?trembed=0''], direct)"
    using resolve_iframe_policy [OF _ _ h3 fetch_external_site(1) a5 a6] a7 a8 by simp
  have r2: "resolve cfg0 external_site direct {} ''https://toonstream.one/?trembed=7'' 0 =
     via ''https://toonstream.one/?trembed=7''
       (resolve cfg0 external_site direct (insert ''https://toonstream.one/?trembed=7'' {})
          ''https://toonstream.one/?trembed=0'' (0 + 1))"
    using resolve_iframe_policy [OF _ _ h3 fetch_external_site(2) b5 b6] b7 by simp
  show ?thesis using h3 a6 a7 a9 b6 b7 r1 r2 by simp
qed

text \<open>
  As stated, claim C3 fails in two ways.  At \<open>depth = MAX_DEPTH\<close> the iframe block is
  skipped: the sixth page of the chain embeds an external iframe, and the resolver
  returns the page's own URL.  And an external iframe whose URL does not start with
  \<open>http\<close> is not returned but fetched.
\<close>

theorem external_iframe_not_returned_counterexample:
  "pickIframe {''https://toonstream.one/?trembed=5'', ''https://toonstream.one/?trembed=4'',
               ''https://toonstream.one/?trembed=3'', ''https://toonstream.one/?trembed=2'',
               ''https://toonstream.one/?trembed=1'', ''https://toonstream.one/?trembed=0''}
      ''https://toonstream.one/?trembed=5''
      (iframeSrcs (parse deep_site ''<html>'' ''https://toonstream.one/?trembed=5''))
     = Some ''https://cdn.example.com/v/1'' \<and>
   iframeNotToonstream ''https://cdn.example.com/v/1'' \<and>
   result_of (extractRealVideoUrl cfg0 deep_site direct ''https://toonstream.one/?trembed=0'')
     = Some ''https://toonstream.one/?trembed=5'' \<and>
   pickIframe {''https://toonstream.one/?trembed=0''} ''https://toonstream.one/?trembed=0''
      (iframeSrcs (parse blank_site ''<html>'' ''https://toonstream.one/?trembed=0''))
     = Some ''about:blank'' \<and>
   iframeNotToonstream ''about:blank'' \<and>
   fetched_of (extractRealVideoUrl cfg0 blank_site direct ''https://toonstream.one/?trembed=0'')
     = [''https://toonstream.one/?trembed=0'', ''about:blank''] \<and>
   result_of (extractRealVideoUrl cfg0 blank_site direct ''https://toonstream.one/?trembed=0'') = None"
  by code_simp

section \<open>Usable servers\<close>

lemma resolve_server_pushed:
  assumes "resolve_server cfg w pm server = (Some e, pm1)"
  shows "truthy (em_url e) \<and> em_real_video e = em_url e \<and>
         (case em_intermediate_url e of
            None \<Rightarrow> em_url e = directUrl server
          | Some t \<Rightarrow> trembedUrl server = Some t \<and> em_url e \<noteq> Some t \<and>
              (case em_url e of
                 None \<Rightarrow> False
               | Some r \<Rightarrow> \<not> includes_str r ''toonstream.one'' \<and> \<not> includes_str r ''trembed''))"
  using assms
  by (auto simp: resolve_server_def split: if_splits option.splits prod.splits)

lemma extractEmbeds_usable:
  "e \<in> set (fst (extractEmbeds cfg w pm servers)) \<Longrightarrow>
   truthy (em_url e) \<and> em_real_video e = em_url e \<and>
   (case em_intermediate_url e of
      None \<Rightarrow> True
    | Some t \<Rightarrow> em_url e \<noteq> Some t \<and>
        (case em_url e of
           None \<Rightarrow> False
         | Some r \<Rightarrow> \<not> includes_str r ''toonstream.one'' \<and> \<not> includes_str r ''trembed''))"
proof (induction servers arbitrary: pm)
  case Nil
  then show ?case by simp
next
  case (Cons server rest)
  obtain pushed pm1 where rs: "resolve_server cfg w pm server = (pushed, pm1)"
    by (cases "resolve_server cfg w pm server")
  obtain embeds pm2 where ee: "extractEmbeds cfg w pm1 rest = (embeds, pm2)"
    by (cases "extractEmbeds cfg w pm1 rest")
  show ?case
  proof (cases pushed)
    case None
    then have "e \<in> set (fst (extractEmbeds cfg w pm1 rest))"
      using Cons.prems rs ee by simp
    then show ?thesis by (rule Cons.IH)
  next
    case (Some e')
    then have "e = e' \<or> e \<in> set (fst (extractEmbeds cfg w pm1 rest))"
      using Cons.prems rs ee by auto
    then show ?thesis
    proof
      assume "e = e'"
      then have "resolve_server cfg w pm server = (Some e, pm1)" using rs Some by simp
      from resolve_server_pushed[OF this] show ?thesis
        by (auto split: option.splits)
    next
      assume "e \<in> set (fst (extractEmbeds cfg w pm1 rest))"
      then show ?thesis by (rule Cons.IH)
    qed
  qed
qed

lemma resolve_server_excluded:
  assumes "\<not> truthy (directUrl server)" and "trembedUrl server = Some t"
    and "result_of (extractRealVideoUrl cfg w pm t) = None \<or>
         result_of (extractRealVideoUrl cfg w pm t) = Some t \<or>
         (\<exists>r. result_of (extractRealVideoUrl cfg w pm t) = Some r \<and>
              (includes_str r ''toonstream.one'' \<or> includes_str r ''trembed''))"
  shows "fst (resolve_server cfg w pm server) = None"
  using assms
  by (cases "extractRealVideoUrl cfg w pm t")
     (auto simp: resolve_server_def result_of_def split: option.splits)

text \<open>
  Claim C9, amended.  Every element of the list returned by \<open>extractEmbeds\<close>, which is persisted
  as the item's \<open>servers\<close>, has a non-null, non-empty \<open>url\<close>, equal to its
  \<open>real_video\<close>; an element that came from an intermediate reference has a URL that
  differs from that reference and contains neither \<open>toonstream.one\<close> nor \<open>trembed\<close>.  So
  the server count is the number of usable servers.  A candidate whose resolution
  returns \<open>null\<close>, its own reference, or a URL with one of these two strings
  contributes no element.
\<close>

theorem persisted_servers_are_usable:
  "(\<forall>e \<in> set (fst (extractEmbeds cfg w pm servers)).
      truthy (em_url e) \<and> em_real_video e = em_url e \<and>
      (case em_intermediate_url e of
         None \<Rightarrow> True
       | Some t \<Rightarrow> em_url e \<noteq> Some t \<and>
           (case em_url e of
              None \<Rightarrow> False
            | Some r \<Rightarrow> \<not> includes_str r ''toonstream.one'' \<and> \<not> includes_str r ''trembed''))) \<and>
   serverCount (fst (extractEmbeds cfg w pm servers)) =
     length (filter (\<lambda>e. truthy (em_url e)) (fst (extractEmbeds cfg w pm servers))) \<and>
   (\<not> truthy (directUrl server) \<and> trembedUrl server = Some t \<and>
      (result_of (extractRealVideoUrl cfg w pm t) = None \<or>
       result_of (extractRealVideoUrl cfg w pm t) = Some t \<or>
       (\<exists>r. result_of (extractRealVideoUrl cfg w pm t) = Some r \<and>
            (includes_str r ''toonstream.one'' \<or> includes_str r ''trembed'')))
     \<longrightarrow> fst (extractEmbeds cfg w pm [server]) = [])"
proof -
  have p1: "\<forall>e \<in> set (fst (extractEmbeds cfg w pm servers)).
      truthy (em_url e) \<and> em_real_video e = em_url e \<and>
      (case em_intermediate_url e of
         None \<Rightarrow> True
       | Some t \<Rightarrow> em_url e \<noteq> Some t \<and>
           (case em_url e of
              None \<Rightarrow> False
            | Some r \<Rightarrow> \<not> includes_str r ''toonstream.one'' \<and> \<not> includes_str r ''trembed''))"
    using extractEmbeds_usable by blast
  then have "\<forall>e \<in> set (fst (extractEmbeds cfg w pm servers)). truthy (em_url e)"
    by blast
  then have p2: "serverCount (fst (extractEmbeds cfg w pm servers)) =
     length (filter (\<lambda>e. truthy (em_url e)) (fst (extractEmbeds cfg w pm servers)))"
    by (simp add: serverCount_def)
  have p3: "fst (extractEmbeds cfg w pm [server]) = []"
    if a: "\<not> truthy (directUrl server) \<and> trembedUrl server = Some t \<and>
      (result_of (extractRealVideoUrl cfg w pm t) = None \<or>
       result_of (extractRealVideoUrl cfg w pm t) = Some t \<or>
       (\<exists>r. result_of (extractRealVideoUrl cfg w pm t) = Some r \<and>
            (includes_str r ''toonstream.one'' \<or> includes_str r ''trembed'')))"
  proof -
    have "fst (resolve_server cfg w pm server) = None"
      using a by (intro resolve_server_excluded) auto
    then show ?thesis
      by (cases "resolve_server cfg w pm server") simp
  qed
  show ?thesis using p1 p2 p3 by blast
qed

theorem persisted_servers_are_usable_witness:
  "list_all (\<lambda>e. truthy (em_url e)) (fst (extractEmbeds cfg0 episode_site direct four_servers)) \<and>
   map em_url (fst (extractEmbeds cfg0 episode_site direct four_servers)) =
     [Some ''https://play.zephyrflick.top/video/abc'', Some ''https://vidmoly.to/embed-xyz.html''] \<and>
   serverCount (fst (extractEmbeds cfg0 episode_site direct four_servers)) = 2 \<and>
   \<not> truthy (directUrl (four_servers ! 2)) \<and>
   trembedUrl (four_servers ! 2) = Some ''https://toonstream.one/?trembed=2&trid=9&trtype=2'' \<and>
   result_of (extractRealVideoUrl cfg0 episode_site direct
                ''https://toonstream.one/?trembed=2&trid=9&trtype=2'') = None \<and>
   fst (extractEmbeds cfg0 episode_site direct [four_servers ! 2]) = []"
proof -
  have urls: "map em_url (fst (extractEmbeds cfg0 episode_site direct four_servers)) =
     [Some ''https://play.zephyrflick.top/video/abc'', Some ''https://vidmoly.to/embed-xyz.html'']"
    by code_simp
  have h1: "\<not> truthy (directUrl (four_servers ! 2))"
    and h2: "trembedUrl (four_servers ! 2) = Some ''https://toonstream.one/?trembed=2&trid=9&trtype=2''"
    by (simp_all add: four_servers_def candidate_def)
  have h3: "result_of (extractRealVideoUrl cfg0 episode_site direct
                ''https://toonstream.one/?trembed=2&trid=9&trtype=2'') = None"
    by code_simp
  note t = persisted_servers_are_usable [where cfg = cfg0 and w = episode_site and pm = direct
      and servers = four_servers and server = "four_servers ! 2"
      and t = "''https://toonstream.one/?trembed=2&trid=9&trtype=2''"]
  have r1: "list_all (\<lambda>e. truthy (em_url e)) (fst (extractEmbeds cfg0 episode_site direct four_servers))"
    using t by (simp add: list_all_iff)
  have "length (map em_url (fst (extractEmbeds cfg0 episode_site direct four_servers))) = 2"
    by (simp only: urls) simp
  then have r2: "serverCount (fst (extractEmbeds cfg0 episode_site direct four_servers)) = 2"
    by (simp add: serverCount_def)
  have r3: "fst (extractEmbeds cfg0 episode_site direct [four_servers ! 2]) = []"
    using t h1 h2 h3 by blast
  show ?thesis using urls h1 h2 h3 r1 r2 r3 by simp
qed

text \<open>
  As stated, claim C9 fails: exclusion is decided by the two strings \<open>toonstream.one\<close>
  and \<open>trembed\<close> alone.  On an episode whose redirection page embeds
  \<open>https://cdn.example.com/go?trid=9\<close>, the resolver follows that iframe because of its
  marker \<open>trid=\<close>, finds an empty page and returns the iframe's URL; \<open>extractEmbeds\<close>
  pushes it as server number one and it is counted.
\<close>

theorem marker_url_persisted_counterexample:
  "map em_url (fst (extractEmbeds cfg0 marker_site direct marker_server)) =
     [Some ''https://cdn.example.com/go?trid=9''] \<and>
   map em_intermediate_url (fst (extractEmbeds cfg0 marker_site direct marker_server)) =
     [Some ''https://toonstream.one/?trembed=0&trid=9&trtype=2''] \<and>
   serverCount (fst (extractEmbeds cfg0 marker_site direct marker_server)) = 1 \<and>
   includes_str ''https://cdn.example.com/go?trid=9'' ''trid='' \<and>
   needsFollow cfg0 marker_site ''https://cdn.example.com/go?trid=9'' \<and>
   \<not> iframeNotToonstream ''https://cdn.example.com/go?trid=9'' \<and>
   fetched_of (extractRealVideoUrl cfg0 marker_site direct
                 ''https://toonstream.one/?trembed=0&trid=9&trtype=2'') =
     [''https://toonstream.one/?trembed=0&trid=9&trtype=2'', ''https://cdn.example.com/go?trid=9'']"
  by code_simp

section \<open>The slug alias\<close>

lemma includes_str_nonempty: "includes_str s p \<Longrightarrow> p \<noteq> [] \<Longrightarrow> s \<noteq> []"
  by (cases s) auto

lemma toLowerCase_Nil_iff: "toLowerCase n = [] \<longleftrightarrow> n = []"
  by (simp add: toLowerCase_def)

lemma cleanSlug_naruto:
  assumes "spelling \<in> set narutoSpellings" and "includes_str (toLowerCase n) spelling"
  shows "cleanSlug (Some n) = ''naruto-shippden''"
proof -
  have "spelling \<noteq> []" using assms(1) by (auto simp: narutoSpellings_def)
  then have "toLowerCase n \<noteq> []" using assms(2) by (rule includes_str_nonempty[rotated])
  then have "n \<noteq> []" by (simp add: toLowerCase_Nil_iff)
  moreover have "list_ex (includes_str (toLowerCase n)) narutoSpellings"
    using assms by (auto simp: list_ex_iff)
  ultimately show ?thesis by (simp add: cleanSlug_def)
qed

lemma cleanSlug_fixed: "cleanSlug (Some ''naruto-shippden'') = ''naruto-shippden''"
  by code_simp

text \<open>
  Claim C10.  \<open>cleanSlug\<close> maps every name whose lower-case form contains one of the
  four spellings, the stored slug among them, to \<open>naruto-shippden\<close>;
  \<open>buildSeriesUrlFromSlug\<close> and \<open>buildEpisodeUrl\<close> put \<open>naruto-shippuden\<close> into the URL
  for that slug and the slug itself for any other non-empty slug.
\<close>

theorem naruto_slug_alias:
  "(\<forall>spelling \<in> set narutoSpellings.
      includes_str (toLowerCase n) spelling \<longrightarrow> cleanSlug (Some n) = ''naruto-shippden'') \<and>
   cleanSlug (Some ''naruto-shippden'') = ''naruto-shippden'' \<and>
   buildSeriesUrlFromSlug cfg w (Some ''naruto-shippden'') =
     Some (TOONSTREAM_ORIGIN cfg w @ ''/series/naruto-shippuden/'') \<and>
   buildEpisodeUrl cfg w (Some ''naruto-shippden'') season episode =
     Some (TOONSTREAM_ORIGIN cfg w @ ''/episode/naruto-shippuden-'' @ show_nat season @ ''x'' @
           show_nat episode @ ''/'') \<and>
   (slug \<noteq> [] \<and> slug \<noteq> ''naruto-shippden'' \<longrightarrow>
      buildSeriesUrlFromSlug cfg w (Some slug) =
        Some (TOONSTREAM_ORIGIN cfg w @ ''/series/'' @ slug @ ''/'') \<and>
      buildEpisodeUrl cfg w (Some slug) season episode =
        Some (TOONSTREAM_ORIGIN cfg w @ ''/episode/'' @ slug @ ''-'' @ show_nat season @ ''x'' @
              show_nat episode @ ''/''))"
proof -
  have p1: "\<forall>spelling \<in> set narutoSpellings.
      includes_str (toLowerCase n) spelling \<longrightarrow> cleanSlug (Some n) = ''naruto-shippden''"
    using cleanSlug_naruto by blast
  have p3: "buildSeriesUrlFromSlug cfg w (Some ''naruto-shippden'') =
     Some (TOONSTREAM_ORIGIN cfg w @ ''/series/naruto-shippuden/'')"
    by (simp add: buildSeriesUrlFromSlug_def)
  have p4: "buildEpisodeUrl cfg w (Some ''naruto-shippden'') season episode =
     Some (TOONSTREAM_ORIGIN cfg w @ ''/episode/naruto-shippuden-'' @ show_nat season @ ''x'' @
           show_nat episode @ ''/'')"
    by (simp add: buildEpisodeUrl_def)
  have p5: "slug \<noteq> [] \<and> slug \<noteq> ''naruto-shippden'' \<longrightarrow>
      buildSeriesUrlFromSlug cfg w (Some slug) =
        Some (TOONSTREAM_ORIGIN cfg w @ ''/series/'' @ slug @ ''/'') \<and>
      buildEpisodeUrl cfg w (Some slug) season episode =
        Some (TOONSTREAM_ORIGIN cfg w @ ''/episode/'' @ slug @ ''-'' @ show_nat season @ ''x'' @
              show_nat episode @ ''/'')"
    by (simp add: buildSeriesUrlFromSlug_def buildEpisodeUrl_def)
  show ?thesis using p1 cleanSlug_fixed p3 p4 p5 by blast
qed

theorem naruto_slug_alias_witness:
  "''naruto shippuden'' \<in> set narutoSpellings \<and>
   includes_str (toLowerCase ''Naruto Shippuden (Hindi Dubbed)'') ''naruto shippuden'' \<and>
   cleanSlug (Some ''Naruto Shippuden (Hindi Dubbed)'') = ''naruto-shippden'' \<and>
   buildSeriesUrlFromSlug cfg0 (site []) (Some ''naruto-shippden'') =
     Some ''https://toonstream.one/series/naruto-shippuden/'' \<and>
   ''one-piece'' \<noteq> [] \<and> ''one-piece'' \<noteq> ''naruto-shippden'' \<and>
   buildSeriesUrlFromSlug cfg0 (site []) (Some ''one-piece'') =
     Some ''https://toonstream.one/series/one-piece/'' \<and>
   buildEpisodeUrl cfg0 (site []) (Some ''one-piece'') 2 15 =
     Some ''https://toonstream.one/episode/one-piece-2x15/''"
proof -
  have h1: "''naruto shippuden'' \<in> set narutoSpellings" by (simp add: narutoSpellings_def)
  have h2: "includes_str (toLowerCase ''Naruto Shippuden (Hindi Dubbed)'') ''naruto shippuden''"
    by code_simp
  have h3: "''one-piece'' \<noteq> [] \<and> ''one-piece'' \<noteq> ''naruto-shippden''" by simp
  have o: "TOONSTREAM_ORIGIN cfg0 (site []) = ''https://toonstream.one''" by code_simp
  have s: "show_nat 2 = ''2''" "show_nat 15 = ''15''" by code_simp+
  note t = naruto_slug_alias [where n = "''Naruto Shippuden (Hindi Dubbed)''" and cfg = cfg0
      and w = "site []" and slug = "''one-piece''" and season = 2 and episode = 15]
  have r1: "cleanSlug (Some ''Naruto Shippuden (Hindi Dubbed)'') = ''naruto-shippden''"
    using t h1 h2 by blast
  have r2: "buildSeriesUrlFromSlug cfg0 (site []) (Some ''naruto-shippden'') =
     Some ''https://toonstream.one/series/naruto-shippuden/''"
    using t o by simp
  have r3: "buildSeriesUrlFromSlug cfg0 (site []) (Some ''one-piece'') =
     Some ''https://toonstream.one/series/one-piece/''"
    using t h3 o by simp
  have r4: "buildEpisodeUrl cfg0 (site []) (Some ''one-piece'') 2 15 =
     Some ''https://toonstream.one/episode/one-piece-2x15/''"
    using t h3 o s by simp
  show ?thesis using h1 h2 h3 r1 r2 r3 r4 by simp
qed

section \<open>Episode keys\<close>

text \<open>
  Printing a number and reading it back gives the number, so the key
  \<open>`${season}x${episode}`\<close> determines the season and the episode: membership in the set
  \<open>existingEpisodes\<close> of \<open>ensureSeriesComplete\<close> is the presence of the row in the store.
\<close>

lemma digits_table:
  "list_all (\<lambda>n. digit_value (''0123456789'' ! n) = n \<and> isDigit (''0123456789'' ! n)) [0..<10]"
  by code_simp

lemma digit_roundtrip: "n < 10 \<Longrightarrow> digit_value (''0123456789'' ! n) = n"
  using digits_table by (simp add: list_all_iff)

lemma digit_isDigit: "n < 10 \<Longrightarrow> isDigit (''0123456789'' ! n)"
  using digits_table by (simp add: list_all_iff)

lemma parse_digits_snoc: "parse_digits (ds @ [c]) = 10 * parse_digits ds + digit_value c"
  by (simp add: parse_digits_def)

lemma parse_digits_show_nat: "parse_digits (show_nat n) = n"
proof (induction n rule: show_nat.induct)
  case (1 n)
  show ?case
  proof (cases "n < 10")
    case True
    then show ?thesis
      by (subst show_nat.simps) (simp add: parse_digits_def digit_roundtrip)
  next
    case False
    then have "parse_digits (show_nat (n div 10)) = n div 10" using "1.IH" by simp
    then show ?thesis
      using False
      by (subst show_nat.simps) (simp add: parse_digits_snoc digit_roundtrip)
  qed
qed

lemma show_nat_digits: "list_all isDigit (show_nat n)"
proof (induction n rule: show_nat.induct)
  case (1 n)
  show ?case
  proof (cases "n < 10")
    case True
    then show ?thesis by (subst show_nat.simps) (simp add: digit_isDigit)
  next
    case False
    then show ?thesis
      using "1.IH" by (subst show_nat.simps) (simp add: digit_isDigit)
  qed
qed

lemma show_nat_inj: "show_nat m = show_nat n \<Longrightarrow> m = n"
  by (metis parse_digits_show_nat)

lemma takeWhile_digits_x:
  "list_all isDigit ds \<Longrightarrow> takeWhile isDigit (ds @ CHR ''x'' # rest) = ds"
  by (induction ds) (simp_all add: isDigit_def)

lemma makeSeasonEpisodeKey_inj:
  "makeSeasonEpisodeKey s e = makeSeasonEpisodeKey s' e' \<longleftrightarrow> s = s' \<and> e = e'"
proof
  assume eq: "makeSeasonEpisodeKey s e = makeSeasonEpisodeKey s' e'"
  then have "takeWhile isDigit (show_nat s @ CHR ''x'' # show_nat e) =
             takeWhile isDigit (show_nat s' @ CHR ''x'' # show_nat e')"
    by (simp add: makeSeasonEpisodeKey_def)
  then have s: "show_nat s = show_nat s'"
    by (simp add: takeWhile_digits_x show_nat_digits)
  then have "show_nat e = show_nat e'" using eq by (simp add: makeSeasonEpisodeKey_def)
  then show "s = s' \<and> e = e'" using s by (auto dest: show_nat_inj)
qed simp

section \<open>Retry scheduling\<close>

lemma upsertEpisode_episodes:
  "episodes (upsertEpisode cfg w now slug title s e p st) = (episodes st)((slug, s, e) \<mapsto> p)"
  by (simp add: upsertEpisode_def Let_def)

lemma upsertEpisode_stats:
  "stats (upsertEpisode cfg w now slug title s e p st) = stats st"
  by (simp add: upsertEpisode_def Let_def)

lemma upsertEpisode_retry_entry:
  "episode_retries (upsertEpisode cfg w now slug title s e p st) (slug, s, e) =
     (if serverCount (ep_servers p) = 1 then
        (let c = (case episode_retries st (slug, s, e) of Some r \<Rightarrow> rt_retry_count r | None \<Rightarrow> 0) in
         if c < 3 then
           Some \<lparr>rt_episode_url = buildEpisodeUrl cfg w (Some slug) s e,
                 rt_retry_at = now + intervals ! c, rt_retry_count = c, rt_status = ''pending''\<rparr>
         else episode_retries st (slug, s, e))
      else if serverCount (ep_servers p) > 1 then None
      else episode_retries st (slug, s, e))"
  by (simp add: upsertEpisode_def Let_def)

lemma upsertEpisode_retry_other:
  "k \<noteq> (slug, s, e) \<Longrightarrow>
   episode_retries (upsertEpisode cfg w now slug title s e p st) k = episode_retries st k"
  by (simp add: upsertEpisode_def Let_def)

lemma sync_attempts_retry_entry:
  assumes "build url hs = Inr b" and "br_code b = (s, e)"
  shows "episode_retries (snd (sync_attempts (Suc n) cfg w build now url hs uc st)) (br_slug b, s, e) =
     (if serverCount (ep_servers (br_payload b)) = 1 then
        (let c = (case uc_retry_count uc of None \<Rightarrow> 0 | Some m \<Rightarrow> m) + 1 in
         if c < 3 then
           Some \<lparr>rt_episode_url = buildEpisodeUrl cfg w (Some (br_slug b)) s e,
                 rt_retry_at = now + intervals ! c, rt_retry_count = c, rt_status = ''pending''\<rparr>
         else
           Some \<lparr>rt_episode_url = Some url, rt_retry_at = now + 5 * 60 * 60 * 1000,
                 rt_retry_count = c, rt_status = ''pending''\<rparr>)
      else if serverCount (ep_servers (br_payload b)) > 1 then None
      else episode_retries st (br_slug b, s, e))"
  using assms
  by (simp add: Let_def episodeExistsInSupabase_def upsertEpisode_episodes upsertEpisode_retry_entry)

lemma sync_attempts_retry_other:
  assumes "build url hs = Inr b" and "br_code b = (s, e)" and "k \<noteq> (br_slug b, s, e)"
  shows "episode_retries (snd (sync_attempts (Suc n) cfg w build now url hs uc st)) k = episode_retries st k"
  using assms
  by (simp add: Let_def episodeExistsInSupabase_def upsertEpisode_episodes upsertEpisode_retry_other)

lemma sync_attempts_threw:
  "build url hs = Inl msg \<Longrightarrow> sync_attempts (Suc n) cfg w build now url hs uc st = (Threw msg, st)"
  by simp

lemma checkEpisodeNeedsUpdate_no_retry_count:
  "uc_retry_count (checkEpisodeNeedsUpdate st slug s e) = None"
  by (simp add: checkEpisodeNeedsUpdate_def Let_def split: option.splits)

lemma parse_1x5: "parseEpisodeCode ''https://toonstream.one/episode/series-x-1x5/'' = Some (1, 5)"
  by code_simp

lemma single_count: "serverCount (ep_servers single_payload) = 1"
  by (simp add: single_payload_def serverCount_def)

lemma url_1x5: "buildEpisodeUrl cfg0 (site []) (Some ''series-x'') 1 5 = Some ''https://toonstream.one/episode/series-x-1x5/''"
  by code_simp

lemma upsert_new_single:
  "episode_retries
     (upsertEpisode cfg0 (site []) now ''series-x'' ''Series X'' 1 5 single_payload empty_store)
     (''series-x'', 1, 5) =
   Some \<lparr>rt_episode_url = Some ''https://toonstream.one/episode/series-x-1x5/'',
         rt_retry_at = now + 3 * 60 * 60 * 1000, rt_retry_count = 0, rt_status = ''pending''\<rparr>"
  using single_count url_1x5
  by (simp add: upsertEpisode_retry_entry Let_def intervals_def empty_store_def)

lemma syncEpisodeByUrl_enters_loop:
  assumes "(case h_code hs of Some c \<Rightarrow> Some c | None \<Rightarrow> parseEpisodeCode url) = Some code"
    and "seriesUrl = js_or (h_seriesUrl hs) (deriveSeriesUrlFromEpisode cfg w url)"
    and "seriesSlug = js_or (h_seriesSlug hs) (extractSeriesSlugFromUrl w seriesUrl)"
    and "pkey = makeEpisodeKey (js_or (h_seriesSlug hs)
                   (extractSeriesSlugFromUrl w (js_or (h_seriesUrl hs) (Some url)))) (fst code) (snd code)"
    and "st0 = st\<lparr>processedEpisodes := insert pkey (processedEpisodes st)\<rparr>"
    and "h_force hs \<or>
         (pkey \<notin> processedEpisodes st \<and>
          in_template seriesSlug @ ''-'' @ show_nat (fst code) @ ''-'' @ show_nat (snd code)
            \<notin> localEpisodeCache st \<and>
          episode_row st seriesSlug (fst code) (snd code) = None)"
  shows "syncEpisodeByUrl cfg w build now url hs st =
         sync_attempts 3 cfg w build now url
           (hs\<lparr>h_seriesUrl := seriesUrl, h_seriesSlug := seriesSlug, h_code := Some code\<rparr>)
           (checkEpisodeNeedsUpdate st0 seriesSlug (fst code) (snd code)) st0"
proof -
  have row: "episode_row st0 seriesSlug (fst code) (snd code) = episode_row st seriesSlug (fst code) (snd code)"
    using assms(5) by (simp add: episode_row_def split: option.splits)
  have ex: "\<not> h_force hs \<Longrightarrow> \<not> uc_exists (checkEpisodeNeedsUpdate st0 seriesSlug (fst code) (snd code))"
    using assms(6) row by (simp add: checkEpisodeNeedsUpdate_def)
  have c: "\<not> h_force hs \<Longrightarrow> pkey \<notin> processedEpisodes st"
    and d: "\<not> h_force hs \<Longrightarrow> in_template seriesSlug @ ''-'' @ show_nat (fst code) @ ''-'' @ show_nat (snd code)
            \<notin> localEpisodeCache st0"
    using assms(5,6) by auto
  show ?thesis
    unfolding syncEpisodeByUrl_def assms(1) option.case Let_def
      assms(2)[symmetric] assms(3)[symmetric] assms(4)[symmetric] assms(5)[symmetric]
    using c d ex by (cases "h_force hs") simp_all
qed

lemma sync_new_single:
  "episode_retries
     (snd (syncEpisodeByUrl cfg0 (site []) (build_x single_payload) now
             ''https://toonstream.one/episode/series-x-1x5/'' plain_hints empty_store))
     (''series-x'', 1, 5) =
   Some \<lparr>rt_episode_url = Some ''https://toonstream.one/episode/series-x-1x5/'',
         rt_retry_at = now + 5 * 60 * 60 * 1000, rt_retry_count = 1, rt_status = ''pending''\<rparr>"
proof -
  let ?url = "''https://toonstream.one/episode/series-x-1x5/''"
  define seriesUrl where "seriesUrl = js_or (h_seriesUrl plain_hints) (deriveSeriesUrlFromEpisode cfg0 (site []) ?url)"
  define seriesSlug where "seriesSlug = js_or (h_seriesSlug plain_hints) (extractSeriesSlugFromUrl (site []) seriesUrl)"
  define pkey where "pkey = makeEpisodeKey (js_or (h_seriesSlug plain_hints)
                   (extractSeriesSlugFromUrl (site []) (js_or (h_seriesUrl plain_hints) (Some ?url)))) (fst (1::nat, 5::nat)) (snd (1::nat, 5::nat))"
  define st0 where "st0 = empty_store\<lparr>processedEpisodes := insert pkey (processedEpisodes empty_store)\<rparr>"
  define hs' where "hs' = plain_hints\<lparr>h_seriesUrl := seriesUrl, h_seriesSlug := seriesSlug, h_code := Some (1, 5)\<rparr>"
  define uc where "uc = checkEpisodeNeedsUpdate st0 seriesSlug (fst (1::nat, 5::nat)) (snd (1::nat, 5::nat))"
  have code: "(case h_code plain_hints of Some c \<Rightarrow> Some c | None \<Rightarrow> parseEpisodeCode ?url) = Some (1, 5)"
    by (simp add: plain_hints_def parse_1x5)
  have fresh: "h_force plain_hints \<or>
         (pkey \<notin> processedEpisodes empty_store \<and>
          in_template seriesSlug @ ''-'' @ show_nat (fst (1::nat, 5::nat)) @ ''-'' @ show_nat (snd (1::nat, 5::nat))
            \<notin> localEpisodeCache empty_store \<and>
          episode_row empty_store seriesSlug (fst (1::nat, 5::nat)) (snd (1::nat, 5::nat)) = None)"
    by (simp add: empty_store_def episode_row_def split: option.splits)
  have eq: "syncEpisodeByUrl cfg0 (site []) (build_x single_payload) now ?url plain_hints empty_store
          = sync_attempts (Suc 2) cfg0 (site []) (build_x single_payload) now ?url hs' uc st0"
    using syncEpisodeByUrl_enters_loop[OF code seriesUrl_def seriesSlug_def pkey_def st0_def fresh]
    by (simp add: hs'_def uc_def numeral_3_eq_3)
  have b: "build_x single_payload ?url hs' =
        Inr \<lparr>br_slug = ''series-x'', br_title = ''Series X'', br_code = (1, 5), br_payload = single_payload\<rparr>"
    by (simp add: build_x_def hs'_def)
  have ucn: "uc_retry_count uc = None"
    unfolding uc_def by (rule checkEpisodeNeedsUpdate_no_retry_count)
  show ?thesis
    unfolding eq
    using sync_attempts_retry_entry[where build = "build_x single_payload" and url = ?url and hs = hs'
        and s = 1 and e = 5 and n = 2 and cfg = cfg0 and w = "site []" and now = now and uc = uc
        and st = st0, OF b] ucn single_count url_1x5
    by (simp add: Let_def intervals_def)
qed

lemma upsertEpisode_bounded:
  assumes "retries_bounded st"
  shows "retries_bounded (upsertEpisode cfg w now slug title s e p st)"
  unfolding retries_bounded_def
proof (intro allI impI)
  fix k r
  assume a: "episode_retries (upsertEpisode cfg w now slug title s e p st) k = Some r"
  show "rt_retry_count r \<le> 3"
  proof (cases "k = (slug, s, e)")
    case False
    then have "episode_retries st k = Some r" using a by (simp add: upsertEpisode_retry_other)
    then show ?thesis using assms unfolding retries_bounded_def by blast
  next
    case True
    then show ?thesis
      using a assms
      by (auto simp: upsertEpisode_retry_entry retries_bounded_def Let_def
               split: if_splits option.splits)
  qed
qed

lemma pre_write_bounded:
  assumes "retries_bounded st" and "rt_retry_count r \<le> 3"
  shows "retries_bounded (st\<lparr>episode_retries := (episode_retries st)(k \<mapsto> r)\<rparr>)"
  using assms by (auto simp: retries_bounded_def)

lemma delete_bounded:
  assumes "retries_bounded st"
  shows "retries_bounded (st\<lparr>episode_retries := (episode_retries st)(k := None)\<rparr>)"
  using assms by (auto simp: retries_bounded_def)

lemma retries_bounded_stats:
  "retries_bounded (st\<lparr>stats := x\<rparr>) = retries_bounded st"
  "retries_bounded (st\<lparr>processedEpisodes := y\<rparr>) = retries_bounded st"
  "retries_bounded (st\<lparr>localEpisodeCache := z\<rparr>) = retries_bounded st"
  by (simp_all add: retries_bounded_def)

lemma sync_attempts_bounded:
  assumes "uc_retry_count uc = None" and "retries_bounded st"
  shows "retries_bounded (snd (sync_attempts n cfg w build now url hs uc st))"
  using assms(2)
proof (induction n arbitrary: st)
  case 0
  then show ?case by simp
next
  case (Suc n)
  show ?case
  proof (cases "build url hs")
    case (Inl msg)
    then show ?thesis using Suc.prems by simp
  next
    case (Inr b)
    obtain s e where c: "br_code b = (s, e)" by (cases "br_code b")
    let ?k = "(br_slug b, s, e)"
    let ?st1 = "if serverCount (ep_servers (br_payload b)) = 1 then
                    st\<lparr>episode_retries := (episode_retries st)(?k \<mapsto>
                       \<lparr>rt_episode_url = Some url,
                        rt_retry_at = now + 5 * 60 * 60 * 1000,
                        rt_retry_count = (case uc_retry_count uc of None \<Rightarrow> 0 | Some n \<Rightarrow> n) + 1,
                        rt_status = ''pending''\<rparr>)\<rparr>
                  else if serverCount (ep_servers (br_payload b)) > 1
                    then st\<lparr>episode_retries := (episode_retries st)(?k := None)\<rparr>
                  else st"
    have b1: "retries_bounded ?st1"
      using Suc.prems assms(1) by (auto intro!: pre_write_bounded delete_bounded)
    let ?st2 = "upsertEpisode cfg w now (br_slug b) (br_title b) s e (br_payload b) ?st1"
    have b2: "retries_bounded ?st2" using b1 by (rule upsertEpisode_bounded)
    have ex: "episodeExistsInSupabase ?st2 (br_slug b) s e"
      by (simp add: episodeExistsInSupabase_def upsertEpisode_episodes)
    have "snd (sync_attempts (Suc n) cfg w build now url hs uc st) =
          ?st2\<lparr>stats := (stats ?st2)
                    \<lparr>totalServers := totalServers (stats ?st2) + serverCount (ep_servers (br_payload b)),
                     seriesProcessed := insert (br_slug b) (seriesProcessed (stats ?st2)),
                     updatedEpisodes := updatedEpisodes (stats ?st2) +
                        (if (if h_force hs then uc_exists uc else uc_exists uc \<and> uc_needsUpdate uc) then 1 else 0),
                     newEpisodes := newEpisodes (stats ?st2) +
                        (if (if h_force hs then uc_exists uc else uc_exists uc \<and> uc_needsUpdate uc) then 0 else 1)\<rparr>\<rparr>"
      using Inr c ex by (simp add: Let_def del: One_nat_def)
    then show ?thesis
      using b2 by (simp only: retries_bounded_stats)
  qed
qed

lemma syncEpisodeByUrl_bounded:
  assumes "retries_bounded st"
  shows "retries_bounded (snd (syncEpisodeByUrl cfg w build now url hs st))"
  using assms
  by (auto simp: syncEpisodeByUrl_def Let_def skip_episode_def retries_bounded_stats
        checkEpisodeNeedsUpdate_no_retry_count
        intro!: sync_attempts_bounded split: option.splits)

lemma forced_sync_retry_entry:
  assumes "h_force hs"
    and "(case h_code hs of Some c \<Rightarrow> Some c | None \<Rightarrow> parseEpisodeCode url) = Some code"
    and "build url
           (hs\<lparr>h_seriesUrl := js_or (h_seriesUrl hs) (deriveSeriesUrlFromEpisode cfg w url),
               h_seriesSlug := js_or (h_seriesSlug hs)
                  (extractSeriesSlugFromUrl w (js_or (h_seriesUrl hs) (deriveSeriesUrlFromEpisode cfg w url))),
               h_code := Some code\<rparr>) = Inr b"
    and "br_code b = (s, e)"
  shows "episode_retries (snd (syncEpisodeByUrl cfg w build now url hs st)) (br_slug b, s, e) =
     (if serverCount (ep_servers (br_payload b)) = 1 then
        Some \<lparr>rt_episode_url = buildEpisodeUrl cfg w (Some (br_slug b)) s e,
              rt_retry_at = now + 5 * 60 * 60 * 1000, rt_retry_count = 1, rt_status = ''pending''\<rparr>
      else if serverCount (ep_servers (br_payload b)) > 1 then None
      else episode_retries st (br_slug b, s, e))"
proof -
  define seriesUrl where "seriesUrl = js_or (h_seriesUrl hs) (deriveSeriesUrlFromEpisode cfg w url)"
  define seriesSlug where "seriesSlug = js_or (h_seriesSlug hs) (extractSeriesSlugFromUrl w seriesUrl)"
  define pkey where "pkey = makeEpisodeKey (js_or (h_seriesSlug hs)
                   (extractSeriesSlugFromUrl w (js_or (h_seriesUrl hs) (Some url)))) (fst code) (snd code)"
  define st0 where "st0 = st\<lparr>processedEpisodes := insert pkey (processedEpisodes st)\<rparr>"
  define hs' where "hs' = hs\<lparr>h_seriesUrl := seriesUrl, h_seriesSlug := seriesSlug, h_code := Some code\<rparr>"
  define uc where "uc = checkEpisodeNeedsUpdate st0 seriesSlug (fst code) (snd code)"
  have eq: "syncEpisodeByUrl cfg w build now url hs st
          = sync_attempts (Suc 2) cfg w build now url hs' uc st0"
    using syncEpisodeByUrl_enters_loop[OF assms(2) seriesUrl_def seriesSlug_def pkey_def st0_def] assms(1)
    by (simp add: hs'_def uc_def numeral_3_eq_3)
  have b: "build url hs' = Inr b"
    using assms(3) by (simp add: hs'_def seriesUrl_def seriesSlug_def)
  have ucn: "uc_retry_count uc = None"
    unfolding uc_def by (rule checkEpisodeNeedsUpdate_no_retry_count)
  have r0: "episode_retries st0 = episode_retries st" by (simp add: st0_def)
  show ?thesis
    unfolding eq
    using sync_attempts_retry_entry[where build = build and url = url and hs = hs'
        and s = s and e = e and n = 2 and cfg = cfg and w = w and now = now and uc = uc
        and st = st0, OF b assms(4)] ucn r0
    by (simp add: Let_def intervals_def)
qed

text \<open>
  Claim C5.  A new episode, with no entry in the retry schedule, resolves to exactly
  one server.  \<open>upsertEpisode\<close> on its own creates the entry the claim describes:
  attempt count 0 and a next attempt three hours from now.  \<open>syncEpisodeByUrl\<close> does
  not: before it calls \<open>upsertEpisode\<close> it writes an entry of its own with count 1, so
  \<open>upsertEpisode\<close> finds count 1 and schedules with the second interval; the entry ends
  with attempt count 1 and a next attempt five hours from now.  A later forced sync of
  the same episode that yields two servers deletes the entry.
\<close>

theorem first_retry_schedule_of_sync:
  "episode_retries empty_store (''series-x'', 1, 5) = None \<and>
   serverCount (ep_servers single_payload) = 1 \<and>
   episode_retries
     (snd (syncEpisodeByUrl cfg0 (site []) (build_x single_payload) now
             ''https://toonstream.one/episode/series-x-1x5/'' plain_hints empty_store))
     (''series-x'', 1, 5) =
     Some \<lparr>rt_episode_url = Some ''https://toonstream.one/episode/series-x-1x5/'',
           rt_retry_at = now + 5 * 60 * 60 * 1000, rt_retry_count = 1, rt_status = ''pending''\<rparr> \<and>
   episode_retries
     (upsertEpisode cfg0 (site []) now ''series-x'' ''Series X'' 1 5 single_payload empty_store)
     (''series-x'', 1, 5) =
     Some \<lparr>rt_episode_url = Some ''https://toonstream.one/episode/series-x-1x5/'',
           rt_retry_at = now + 3 * 60 * 60 * 1000, rt_retry_count = 0, rt_status = ''pending''\<rparr> \<and>
   episode_retries
     (snd (syncEpisodeByUrl cfg0 (site []) (build_x complete_payload) later
             ''https://toonstream.one/episode/series-x-1x5/'' forced_hints
             (snd (syncEpisodeByUrl cfg0 (site []) (build_x single_payload) now
                     ''https://toonstream.one/episode/series-x-1x5/'' plain_hints empty_store))))
     (''series-x'', 1, 5) = None"
proof -
  let ?url = "''https://toonstream.one/episode/series-x-1x5/''"
  let ?st = "snd (syncEpisodeByUrl cfg0 (site []) (build_x single_payload) now ?url plain_hints empty_store)"
  have e0: "episode_retries empty_store (''series-x'', 1, 5) = None"
    by (simp add: empty_store_def)
  have f: "h_force forced_hints" by (simp add: forced_hints_def)
  have c: "(case h_code forced_hints of Some c \<Rightarrow> Some c | None \<Rightarrow> parseEpisodeCode ?url) = Some (1, 5)"
    by (simp add: forced_hints_def plain_hints_def parse_1x5)
  have b: "build_x complete_payload ?url
           (forced_hints\<lparr>h_seriesUrl := js_or (h_seriesUrl forced_hints) (deriveSeriesUrlFromEpisode cfg0 (site []) ?url),
               h_seriesSlug := js_or (h_seriesSlug forced_hints)
                  (extractSeriesSlugFromUrl (site []) (js_or (h_seriesUrl forced_hints) (deriveSeriesUrlFromEpisode cfg0 (site []) ?url))),
               h_code := Some (1, 5)\<rparr>) =
          Inr \<lparr>br_slug = ''series-x'', br_title = ''Series X'', br_code = (1, 5), br_payload = complete_payload\<rparr>"
    by (simp add: build_x_def)
  have n2: "serverCount (ep_servers complete_payload) = 2"
    by (simp add: complete_payload_def serverCount_def)
  have del: "episode_retries
     (snd (syncEpisodeByUrl cfg0 (site []) (build_x complete_payload) later ?url forced_hints ?st))
     (''series-x'', 1, 5) = None"
    using forced_sync_retry_entry[where hs = forced_hints and url = ?url and code = "(1, 5)"
        and build = "build_x complete_payload" and cfg = cfg0 and w = "site []" and s = 1 and e = 5
        and now = later and st = ?st, OF f c b] n2 by simp
  show ?thesis using e0 single_count sync_new_single upsert_new_single del by simp
qed

section \<open>Series completeness pass\<close>

lemma ensureSeriesComplete_nothing_missing:
  assumes "truthy (sc_slug ctx)"
    and "\<forall>link \<in> set (allEpisodeLinks cfg w (sc_slug ctx) page).
           episode_row st (sc_slug ctx) (l_season link) (l_episode link) \<noteq> None"
  shows "ensureSeriesComplete cfg w build now ctx (Inr page) st = st"
proof -
  have "filter (\<lambda>link. episode_row st (sc_slug ctx) (l_season link) (l_episode link) = None)
          (allEpisodeLinks cfg w (sc_slug ctx) page) = []"
    using assms(2) by (simp add: filter_empty_conv)
  then show ?thesis using assms(1) by (simp add: ensureSeriesComplete_def Let_def)
qed

lemma page_x_links:
  "allEpisodeLinks cfg0 (site []) (sc_slug series_x) (projr page_x) = map link_x [1, 2, 3, 4, 5]"
  by code_simp

lemma pass_x_counters:
  "newEpisodes (stats after_pass_x) = 1 \<and> updatedEpisodes (stats after_pass_x) = 0 \<and>
   skippedEpisodes (stats after_pass_x) = 0 \<and> failedEpisodes (stats after_pass_x) = 0"
  by code_simp

lemma pass_x_rows:
  "episodes after_pass_x (''series-x'', 1, 1) = Some complete_payload"
  "episodes after_pass_x (''series-x'', 1, 2) = Some complete_payload"
  "episodes after_pass_x (''series-x'', 1, 3) = Some complete_payload"
  "episodes after_pass_x (''series-x'', 1, 4) = Some (complete_payload\<lparr>ep_servers := []\<rparr>)"
  "episodes after_pass_x (''series-x'', 1, 5) = Some complete_payload"
  by code_simp+

lemma store_x_rows:
  "episodes store_x (''series-x'', 1, 1) = Some complete_payload"
  "episodes store_x (''series-x'', 1, 2) = Some complete_payload"
  "episodes store_x (''series-x'', 1, 3) = Some complete_payload"
  "episodes store_x (''series-x'', 1, 4) = Some (complete_payload\<lparr>ep_servers := []\<rparr>)"
  "episodes store_x (''series-x'', 1, 5) = None"
  by (simp_all add: store_x_def)

lemma pass_x_all_present:
  "list_all (\<lambda>link. episode_row after_pass_x (sc_slug series_x) (l_season link) (l_episode link) \<noteq> None)
     (allEpisodeLinks cfg0 (site []) (sc_slug series_x) (projr page_x))"
  by code_simp

text \<open>
  Claim C6, amended.  On the series whose source lists 1x1 to 1x5 while the store holds
  1x1 to 1x3 complete and 1x4 with zero servers, the completeness pass syncs only the
  absent episode 1x5, as new; the rows of 1x1 to 1x4 are left as they were, 1x4 among
  them; the counters end at new = 1, updated = 0, skipped = 0, failed = 0.  Running the
  pass again on the resulting state changes nothing.
\<close>

theorem completeness_pass_syncs_only_absent:
  "newEpisodes (stats after_pass_x) = 1 \<and> updatedEpisodes (stats after_pass_x) = 0 \<and>
   skippedEpisodes (stats after_pass_x) = 0 \<and> failedEpisodes (stats after_pass_x) = 0 \<and>
   episodes after_pass_x (''series-x'', 1, 1) = episodes store_x (''series-x'', 1, 1) \<and>
   episodes after_pass_x (''series-x'', 1, 2) = episodes store_x (''series-x'', 1, 2) \<and>
   episodes after_pass_x (''series-x'', 1, 3) = episodes store_x (''series-x'', 1, 3) \<and>
   episodes after_pass_x (''series-x'', 1, 4) = episodes store_x (''series-x'', 1, 4) \<and>
   episodes store_x (''series-x'', 1, 5) = None \<and>
   episodes after_pass_x (''series-x'', 1, 5) = Some complete_payload \<and>
   map (\<lambda>link. (l_season link, l_episode link))
     (allEpisodeLinks cfg0 (site []) (sc_slug series_x) (projr page_x)) =
     [(1, 1), (1, 2), (1, 3), (1, 4), (1, 5)] \<and>
   ensureSeriesComplete cfg0 (site []) (build_x complete_payload) later series_x page_x after_pass_x
     = after_pass_x"
proof -
  have t: "truthy (sc_slug series_x)" by (simp add: series_x_def)
  have p: "page_x = Inr (projr page_x)" by (simp add: page_x_def)
  have "\<forall>link \<in> set (allEpisodeLinks cfg0 (site []) (sc_slug series_x) (projr page_x)).
          episode_row after_pass_x (sc_slug series_x) (l_season link) (l_episode link) \<noteq> None"
    using pass_x_all_present unfolding list_all_iff .
  then have "ensureSeriesComplete cfg0 (site []) (build_x complete_payload) later series_x
               (Inr (projr page_x)) after_pass_x = after_pass_x"
    using t by (rule ensureSeriesComplete_nothing_missing[rotated])
  then have noop: "ensureSeriesComplete cfg0 (site []) (build_x complete_payload) later series_x
               page_x after_pass_x = after_pass_x"
    using p by simp
  have l: "map (\<lambda>link. (l_season link, l_episode link))
     (allEpisodeLinks cfg0 (site []) (sc_slug series_x) (projr page_x)) =
     [(1, 1), (1, 2), (1, 3), (1, 4), (1, 5)]"
    by (simp add: page_x_links link_x_def)
  show ?thesis
    using pass_x_counters pass_x_rows store_x_rows noop l by simp
qed

text \<open>
  As stated, claim C6 fails: the pass does not end with updated = 1 and skipped = 3,
  and the row of 1x4 still has zero servers after it.
\<close>

theorem zero_server_episode_not_revisited_counterexample:
  "\<not> (newEpisodes (stats after_pass_x) = 1 \<and> updatedEpisodes (stats after_pass_x) = 1 \<and>
      skippedEpisodes (stats after_pass_x) = 3) \<and>
   updatedEpisodes (stats after_pass_x) = 0 \<and> skippedEpisodes (stats after_pass_x) = 0 \<and>
   map_option ep_servers (episodes store_x (''series-x'', 1, 4)) = Some [] \<and>
   map_option ep_servers (episodes after_pass_x (''series-x'', 1, 4)) = Some []"
  using pass_x_counters pass_x_rows(4) store_x_rows(4) by simp

end
